theory Spec2Isabelle
  imports Main
begin

section \<open>Python strings\<close>

text \<open>
  A Python \<open>str\<close> is a sequence of Unicode code points, modelled as a list of naturals.
  The ASCII literals of the source are written with \<open>py\<close>. Bytes are naturals below 256.
\<close>

type_synonym pystr = "nat list"

type_synonym bytes = "nat list"

definition py :: "string \<Rightarrow> pystr" where
  "py s = map of_char s"

text \<open>\<open>str.isspace\<close> of one code point: the set CPython's \<open>strip()\<close> removes.\<close>

definition isspace :: "nat \<Rightarrow> bool" where
  "isspace c = ((9 \<le> c \<and> c \<le> 13) \<or> (28 \<le> c \<and> c \<le> 32) \<or> c = 133 \<or> c = 160 \<or> c = 5760
     \<or> (8192 \<le> c \<and> c \<le> 8202) \<or> c = 8232 \<or> c = 8233 \<or> c = 8239 \<or> c = 8287 \<or> c = 12288)"

definition strip :: "pystr \<Rightarrow> pystr" where
  "strip s = rev (dropWhile isspace (rev (dropWhile isspace s)))"

definition startswith :: "pystr \<Rightarrow> pystr \<Rightarrow> bool" where
  "startswith s p = (take (length p) s = p)"

definition endswith :: "pystr \<Rightarrow> pystr \<Rightarrow> bool" where
  "endswith s p = (length p \<le> length s \<and> drop (length s - length p) s = p)"

text \<open>The line boundaries of \<open>str.splitlines\<close>; \<open>\r\n\<close> counts as one boundary.\<close>

definition linebreak :: "nat \<Rightarrow> bool" where
  "linebreak c = ((10 \<le> c \<and> c \<le> 13) \<or> (28 \<le> c \<and> c \<le> 30) \<or> c = 133 \<or> c = 8232 \<or> c = 8233)"

fun splitlines_from :: "pystr \<Rightarrow> pystr \<Rightarrow> pystr list" where
  "splitlines_from cur [] = (if cur = [] then [] else [cur])"
| "splitlines_from cur [c] = (if linebreak c then [cur] else [cur @ [c]])"
| "splitlines_from cur (c # d # cs) =
     (if c = 13 \<and> d = 10 then cur # splitlines_from [] cs
      else if linebreak c then cur # splitlines_from [] (d # cs)
      else splitlines_from (cur @ [c]) (d # cs))"

definition splitlines :: "pystr \<Rightarrow> pystr list" where
  "splitlines s = splitlines_from [] s"

fun join_str :: "pystr \<Rightarrow> pystr list \<Rightarrow> pystr" where
  "join_str sep [] = []"
| "join_str sep [x] = x"
| "join_str sep (x # y # ys) = x @ sep @ join_str sep (y # ys)"

text \<open>
  \<open>str.lower\<close>. Below 128 it maps \<open>A..Z\<close> to \<open>a..z\<close>. Above, Python follows the Unicode
  tables; the only code points whose lower case contains an ASCII letter are the Kelvin
  sign (to \<open>k\<close>) and the dotted capital I (to \<open>i\<close> and a combining dot), so ASCII suffixes
  and extensions compare as in Python. Other code points are left as they are.
\<close>

definition lower_char :: "nat \<Rightarrow> pystr" where
  "lower_char c = (if 65 \<le> c \<and> c \<le> 90 then [c + 32]
     else if c = 8490 then [107]
     else if c = 304 then [105, 775]
     else [c])"

definition lower :: "pystr \<Rightarrow> pystr" where
  "lower s = concat (map lower_char s)"

section \<open>JSON values\<close>

text \<open>
  What \<open>json.loads\<close> returns: \<open>None\<close>, a bool, an int, a float, a str, a list or a dict.
  A float is a dyadic rational \<open>m * 2^e\<close>, an infinity or a NaN. A dict is an association
  list read with the first match.
\<close>

datatype pyfloat = Finite int int | PosInf | NegInf | NaN

datatype json =
    JNull
  | JBool bool
  | JInt int
  | JFloat pyfloat
  | JStr pystr
  | JList "json list"
  | JDict "(pystr \<times> json) list"

text \<open>Python truthiness, as used by \<open>if x:\<close> and \<open>not x\<close>.\<close>

fun truthy :: "json \<Rightarrow> bool" where
  "truthy JNull = False"
| "truthy (JBool b) = b"
| "truthy (JInt i) = (i \<noteq> 0)"
| "truthy (JFloat (Finite m e)) = (m \<noteq> 0)"
| "truthy (JFloat _) = True"
| "truthy (JStr s) = (s \<noteq> [])"
| "truthy (JList xs) = (xs \<noteq> [])"
| "truthy (JDict kvs) = (kvs \<noteq> [])"

text \<open>
  \<open>isinstance(v, list)\<close> and \<open>isinstance(v, str)\<close>, and, for stating what gets written,
  the text of a str, the texts of a list, and the text a field stands for: a list joined
  by a comma and a space, a str itself.
\<close>

fun is_list :: "json \<Rightarrow> bool" where
  "is_list (JList xs) = True"
| "is_list _ = False"

fun is_str :: "json \<Rightarrow> bool" where
  "is_str (JStr s) = True"
| "is_str _ = False"

fun str_of :: "json \<Rightarrow> pystr" where
  "str_of (JStr s) = s"
| "str_of _ = []"

fun strs_of :: "json \<Rightarrow> pystr list" where
  "strs_of (JList xs) = map str_of xs"
| "strs_of _ = []"

definition text_of :: "json \<Rightarrow> pystr" where
  "text_of v = (if is_list v then join_str (py '', '') (strs_of v) else str_of v)"

section \<open>The environment: library calls\<close>

text \<open>
  The libraries are outside the program. Each library call that the source wraps in a
  \<open>try\<close> is an oracle of the environment whose result says whether the call raised:
  \<^item> \<open>b64encode\<close>: the encoding in \<open>encode_image\<close>, \<open>None\<close> when it raises;
  \<^item> \<open>genai_configure\<close>: whether \<open>genai.configure\<close> and the construction of the model
    return;
  \<^item> \<open>generate_content\<close>: for a key and an encoded image, the outcome of each successive
    call: \<open>Raises\<close> when the call or the reading of \<open>response.text\<close> raises, else the
    text (which may be \<open>None\<close>);
  \<^item> \<open>json_loads\<close>: the parsed value, \<open>JSONDecodeError\<close> (caught by the inner handler), or
    any other exception (which reaches the outer handler);
  \<^item> \<open>IPTCInfo\<close>, \<open>Image_open\<close>: the container or the image read from the bytes of a
    file, \<open>None\<close> when opening raises;
  \<^item> \<open>rawpy_postprocess\<close>: \<open>rawpy.imread\<close>, \<open>postprocess()\<close> with its default parameters
    and \<open>Image.fromarray\<close>;
  \<^item> \<open>save\<close>: whether writing a content to a path returns (\<open>save_as\<close>, \<open>Image.save\<close>).
  One call outside every \<open>try\<close> is an oracle too, for it depends on the name of the
  uploaded file:
  \<^item> \<open>open_wb\<close>: whether the scratch copy can be written at a path, that is whether
    \<open>open(temp_file_path, "wb")\<close> and the \<open>write\<close> return; when they raise, the exception
    leaves the function and the loop that called it.
  \<open>os.makedirs\<close> and \<open>os.remove\<close> are taken to succeed.
\<close>

datatype response = Raises | Text "pystr option"

datatype loads_result = Loaded json | JSONDecodeError | OtherException

record image =
  im_mode :: string
  im_size :: "nat \<times> nat"
  im_pixels :: "nat list"
  im_info :: "(pystr \<times> pystr) list"

text \<open>
  An IPTC container (the \<open>IPTCInfo\<close> object) and a PNG text block (\<open>PngInfo\<close>) are
  association lists from field names to values. What a file on disk holds is described by
  the call that wrote it.
\<close>

datatype ival = IText pystr | IList "pystr list"

type_synonym iptc = "(pystr \<times> ival) list"

type_synonym pnginfo = "(pystr \<times> pystr) list"

datatype content =
    Uploaded bytes
  | Iptc_jpeg bytes iptc
  | Png image pnginfo
  | Plain image
  | Jpeg image nat
  | Zip "(pystr \<times> content) list"

record env =
  RAW_SUCCESS :: bool
  b64encode :: "bytes \<Rightarrow> pystr option"
  genai_configure :: "pystr \<Rightarrow> bool"
  generate_content :: "pystr \<Rightarrow> pystr \<Rightarrow> nat \<Rightarrow> response"
  json_loads :: "pystr \<Rightarrow> loads_result"
  IPTCInfo :: "bytes \<Rightarrow> iptc option"
  Image_open :: "bytes \<Rightarrow> image option"
  rawpy_postprocess :: "bytes \<Rightarrow> image option"
  save :: "content \<Rightarrow> pystr \<Rightarrow> bool"
  open_wb :: "pystr \<Rightarrow> bool"

record uploaded_file =
  name :: pystr
  getvalue :: bytes

section \<open>Image analysis\<close>

definition encode_image :: "env \<Rightarrow> uploaded_file \<Rightarrow> pystr option" where
  "encode_image e image_file = b64encode e (getvalue image_file)"

text \<open>The character class of the \<open>re.sub\<close> in \<open>analyze_image\<close>.\<close>

definition control_char :: "nat \<Rightarrow> bool" where
  "control_char c = (c \<le> 31 \<or> (127 \<le> c \<and> c \<le> 159) \<or> (8192 \<le> c \<and> c \<le> 8205) \<or> c = 65279)"

definition strip_fences :: "pystr \<Rightarrow> pystr" where
  "strip_fences json_string =
     (if startswith json_string (py ''```'') then
        (let lines = splitlines json_string;
             lines1 = (if lines \<noteq> [] \<and> startswith (strip (hd lines)) (py ''```'')
                       then tl lines else lines);
             lines2 = (if lines1 \<noteq> [] \<and> strip (last lines1) = py ''```''
                       then butlast lines1 else lines1)
         in strip (join_str [10] lines2))
      else json_string)"

definition sanitize :: "pystr \<Rightarrow> pystr" where
  "sanitize text = filter (\<lambda>c. \<not> control_char c) (strip_fences (strip text))"

text \<open>
  One pass through the body of the \<open>try\<close> inside the loop: it returns (a record or
  \<open>None\<close>) or an exception reaches the handler \<open>except Exception\<close>.
\<close>

datatype attempt_result = Return "json option" | Exception

definition attempt :: "env \<Rightarrow> response \<Rightarrow> attempt_result" where
  "attempt e r =
     (case r of
        Raises \<Rightarrow> Exception
      | Text None \<Rightarrow> Return None
      | Text (Some t) \<Rightarrow>
          if t = [] then Return None
          else (let json_string = sanitize t in
            if json_string = [] then Return None
            else (case json_loads e json_string of
                    Loaded json_data \<Rightarrow> Return (Some json_data)
                  | JSONDecodeError \<Rightarrow> Return None
                  | OtherException \<Rightarrow> Exception)))"

text \<open>
  What \<open>analyze_image\<close> does besides returning: calls of the model and sleeps, in order.
  The model client is the stream of the outcomes of its successive calls.
\<close>

datatype event = Generate | Sleep nat

function analyze_loop ::
  "env \<Rightarrow> (nat \<Rightarrow> response) \<Rightarrow> int \<Rightarrow> int \<Rightarrow> json option \<times> event list" where
  "analyze_loop e model retries max_retries =
     (if retries \<le> max_retries then
        (case attempt e (model 0) of
           Return r \<Rightarrow> (r, [Generate])
         | Exception \<Rightarrow>
             if retries < max_retries then
               (case analyze_loop e (\<lambda>k. model (Suc k)) (retries + 1) max_retries of
                  (r, evs) \<Rightarrow> (r, Generate # Sleep (2 ^ nat retries) # evs))
             else (None, [Generate]))
      else (None, []))"
  by pat_completeness auto
termination
  by (relation "measure (\<lambda>(e, model, retries, max_retries). nat (max_retries + 1 - retries))") auto

declare analyze_loop.simps [simp del]

definition analyze_image ::
  "env \<Rightarrow> uploaded_file \<Rightarrow> pystr \<Rightarrow> int \<Rightarrow> json option \<times> event list" where
  "analyze_image e image_file api_key max_retries =
     (case encode_image e image_file of
        None \<Rightarrow> (None, [])
      | Some base64_image \<Rightarrow>
          if \<not> genai_configure e api_key then (None, [])
          else analyze_loop e (generate_content e api_key base64_image) 0 max_retries)"

section \<open>Paths and the session\<close>

text \<open>
  \<open>os.path\<close> on a POSIX host. \<open>rfind\<close> is \<open>str.rfind\<close> of one character: the last index,
  or \<open>-1\<close>.
\<close>

definition rfind :: "pystr \<Rightarrow> nat \<Rightarrow> int" where
  "rfind p c = int (length (dropWhile (\<lambda>x. x \<noteq> c) (rev p))) - 1"

definition path_join :: "pystr \<Rightarrow> pystr \<Rightarrow> pystr" where
  "path_join a b =
     (if startswith b [47] then b
      else if a = [] \<or> endswith a [47] then a @ b
      else a @ [47] @ b)"

definition splitext :: "pystr \<Rightarrow> pystr \<times> pystr" where
  "splitext p =
     (let sepIndex = rfind p 47; dotIndex = rfind p 46 in
      if dotIndex > sepIndex
         \<and> filter (\<lambda>c. c \<noteq> 46) (take (nat dotIndex - nat (sepIndex + 1)) (drop (nat (sepIndex + 1)) p)) \<noteq> []
      then (take (nat dotIndex) p, drop (nat dotIndex) p)
      else (p, []))"

definition basename :: "pystr \<Rightarrow> pystr" where
  "basename p = drop (nat (rfind p 47 + 1)) p"

text \<open>
  The session state of the source (\<open>st.session_state\<close>) together with the files on disk:
  a map from the paths of the existing files to what they hold. Directories are not
  modelled, so \<open>os.makedirs\<close> changes nothing.
\<close>

record state =
  temp_dir :: pystr
  processed_files :: "pystr list"
  fs :: "pystr \<rightharpoonup> content"

text \<open>
  A call either returns a value or an exception leaves it; \<open>Raised\<close> carries the state
  the exception leaves behind.
\<close>

datatype 'a result = Returned 'a | Raised state

section \<open>Writing metadata\<close>

text \<open>
  \<open>metadata.get(key)\<close>: a dict gives the value or \<open>None\<close> (\<open>dict_get\<close>); any other
  value has no method \<open>get\<close> and the call raises (result \<open>None\<close> of the model).
\<close>

definition dict_get :: "(pystr \<times> json) list \<Rightarrow> pystr \<Rightarrow> json" where
  "dict_get kvs key = (case map_of kvs key of Some v \<Rightarrow> v | None \<Rightarrow> JNull)"

definition py_get :: "json \<Rightarrow> pystr \<Rightarrow> json option" where
  "py_get metadata key = (case metadata of JDict kvs \<Rightarrow> Some (dict_get kvs key) | _ \<Rightarrow> None)"

text \<open>
  \<open>v.encode('utf-8').decode('utf-8', errors='ignore')\<close>: only a str has \<open>encode\<close>, and
  encoding raises on a lone surrogate; what encodes decodes to itself.
\<close>

definition surrogate :: "nat \<Rightarrow> bool" where
  "surrogate c = (55296 \<le> c \<and> c \<le> 57343)"

definition recode :: "json \<Rightarrow> pystr option" where
  "recode v = (case v of JStr s \<Rightarrow> if filter surrogate s = [] then Some s else None | _ \<Rightarrow> None)"

fun recode_all :: "json list \<Rightarrow> pystr list option" where
  "recode_all [] = Some []"
| "recode_all (k # ks) =
     (case recode k of
        None \<Rightarrow> None
      | Some s \<Rightarrow> (case recode_all ks of None \<Rightarrow> None | Some ss \<Rightarrow> Some (s # ss)))"

fun dict_set :: "'k \<Rightarrow> 'v \<Rightarrow> ('k \<times> 'v) list \<Rightarrow> ('k \<times> 'v) list" where
  "dict_set k v [] = [(k, v)]"
| "dict_set k v ((k', v') # kvs) = (if k' = k then (k, v) # kvs else (k', v') # dict_set k v kvs)"

text \<open>The JPEG branch: one guarded assignment per field, \<open>None\<close> when a statement raises.\<close>

definition set_text :: "json \<Rightarrow> pystr \<Rightarrow> pystr \<Rightarrow> iptc \<Rightarrow> iptc option" where
  "set_text metadata key field info =
     (case py_get metadata key of
        None \<Rightarrow> None
      | Some v \<Rightarrow>
          if truthy v then
            (case recode v of None \<Rightarrow> None | Some s \<Rightarrow> Some (dict_set field (IText s) info))
          else Some info)"

definition set_keywords :: "json \<Rightarrow> iptc \<Rightarrow> iptc option" where
  "set_keywords metadata info =
     (case py_get metadata (py ''keywords'') of
        None \<Rightarrow> None
      | Some v \<Rightarrow>
          if truthy v then
            (case v of
               JList ks \<Rightarrow>
                 (case recode_all ks of
                    None \<Rightarrow> None
                  | Some ss \<Rightarrow> Some (dict_set (py ''keywords'') (IList ss) info))
             | _ \<Rightarrow> Some info)
          else Some info)"

definition jpeg_fields :: "json \<Rightarrow> iptc \<Rightarrow> iptc option" where
  "jpeg_fields metadata info =
     Option.bind (set_text metadata (py ''caption'') (py ''caption/abstract'') info) (\<lambda>i1.
     Option.bind (set_keywords metadata i1) (\<lambda>i2.
     Option.bind (set_text metadata (py ''byline'') (py ''by-line'') i2) (\<lambda>i3.
     Option.bind (set_text metadata (py ''credit'') (py ''credit'') i3) (\<lambda>i4.
     set_text metadata (py ''source'') (py ''source'') i4))))"

definition jpeg_branch :: "env \<Rightarrow> bytes \<Rightarrow> pystr \<Rightarrow> json \<Rightarrow> content option" where
  "jpeg_branch e data output_path metadata =
     (case IPTCInfo e data of
        None \<Rightarrow> None
      | Some info \<Rightarrow>
          (case jpeg_fields metadata info of
             None \<Rightarrow> None
           | Some info' \<Rightarrow>
               if save e (Iptc_jpeg data info') output_path then Some (Iptc_jpeg data info')
               else None))"

text \<open>The PNG branch: \<open>add_text\<close> appends a chunk to a block that starts empty.\<close>

definition add_text :: "json \<Rightarrow> pystr \<Rightarrow> pnginfo \<Rightarrow> pnginfo option" where
  "add_text metadata key pnginfo =
     (case py_get metadata key of
        None \<Rightarrow> None
      | Some v \<Rightarrow>
          if truthy v then
            (case recode v of None \<Rightarrow> None | Some s \<Rightarrow> Some (pnginfo @ [(key, s)]))
          else Some pnginfo)"

definition add_keywords :: "json \<Rightarrow> pnginfo \<Rightarrow> pnginfo option" where
  "add_keywords metadata pnginfo =
     (case py_get metadata (py ''keywords'') of
        None \<Rightarrow> None
      | Some v \<Rightarrow>
          if truthy v then
            (case v of
               JList ks \<Rightarrow>
                 (case recode_all ks of
                    None \<Rightarrow> None
                  | Some ss \<Rightarrow> Some (pnginfo @ [(py ''keywords'', join_str (py '', '') ss)]))
             | _ \<Rightarrow>
                 (case recode v of
                    None \<Rightarrow> None
                  | Some s \<Rightarrow> Some (pnginfo @ [(py ''keywords'', s)])))
          else Some pnginfo)"

definition png_fields :: "json \<Rightarrow> pnginfo option" where
  "png_fields metadata =
     Option.bind (add_text metadata (py ''caption'') []) (\<lambda>p1.
     Option.bind (add_keywords metadata p1) (\<lambda>p2.
     Option.bind (add_text metadata (py ''byline'') p2) (\<lambda>p3.
     Option.bind (add_text metadata (py ''credit'') p3) (\<lambda>p4.
     add_text metadata (py ''source'') p4))))"

definition png_branch :: "env \<Rightarrow> bytes \<Rightarrow> pystr \<Rightarrow> json \<Rightarrow> content option" where
  "png_branch e data output_path metadata =
     (case Image_open e data of
        None \<Rightarrow> None
      | Some im \<Rightarrow>
          (case png_fields metadata of
             None \<Rightarrow> None
           | Some pnginfo \<Rightarrow>
               if save e (Png im pnginfo) output_path then Some (Png im pnginfo) else None))"

text \<open>
  The three file operations share one frame. The scratch copy is written before the
  \<open>try\<close>: when that raises, the exception leaves the function, and the disk is taken
  to be as it was. Otherwise
  (\<open>scratch_frame\<close>) the \<open>try\<close> block either writes the output (\<open>Some\<close>) or fails
  (\<open>None\<close>, by \<open>return False\<close> or by an exception that the handler turns into \<open>False\<close>),
  and \<open>finally\<close> removes the scratch copy. A write that raises is taken to leave the disk
  as it was. \<open>write_try\<close> is the \<open>try\<close> block of \<open>write_image_metadata\<close>, which reads the
  scratch copy it was given.
\<close>

definition scratch_frame :: "uploaded_file \<Rightarrow> pystr \<Rightarrow> content option \<Rightarrow> state \<Rightarrow> bool \<times> state" where
  "scratch_frame image_file output_path written st =
     (let temp_file_path = path_join (temp_dir st) (name image_file);
          st1 = st\<lparr>fs := (fs st)(temp_file_path \<mapsto> Uploaded (getvalue image_file))\<rparr>;
          st2 = (case written of
                   Some c \<Rightarrow> st1\<lparr>fs := (fs st1)(output_path \<mapsto> c)\<rparr>
                 | None \<Rightarrow> st1)
      in (written \<noteq> None, st2\<lparr>fs := (fs st2)(temp_file_path := None)\<rparr>))"

definition with_scratch ::
  "env \<Rightarrow> uploaded_file \<Rightarrow> pystr \<Rightarrow> content option \<Rightarrow> state \<Rightarrow> (bool \<times> state) result" where
  "with_scratch e image_file output_path written st =
     (if \<not> open_wb e (path_join (temp_dir st) (name image_file)) then Raised st
      else Returned (scratch_frame image_file output_path written st))"

definition write_try :: "env \<Rightarrow> uploaded_file \<Rightarrow> pystr \<Rightarrow> json \<Rightarrow> content option" where
  "write_try e image_file output_path metadata =
     (let ext = lower (snd (splitext (name image_file)))
      in if ext = py ''.jpg'' \<or> ext = py ''.jpeg''
           then jpeg_branch e (getvalue image_file) output_path metadata
         else if ext = py ''.png''
           then png_branch e (getvalue image_file) output_path metadata
         else None)"

definition write_image_metadata ::
  "env \<Rightarrow> uploaded_file \<Rightarrow> pystr \<Rightarrow> json \<Rightarrow> state \<Rightarrow> (bool \<times> state) result" where
  "write_image_metadata e image_file output_path metadata st =
     with_scratch e image_file output_path (write_try e image_file output_path metadata) st"

section \<open>Removing metadata\<close>

definition remove_metadata_image ::
  "env \<Rightarrow> uploaded_file \<Rightarrow> pystr \<Rightarrow> state \<Rightarrow> (bool \<times> state) result" where
  "remove_metadata_image e image_file output_path st =
     with_scratch e image_file output_path
       (case Image_open e (getvalue image_file) of
          None \<Rightarrow> None
        | Some img \<Rightarrow>
            (let new_img = \<lparr>im_mode = im_mode img, im_size = im_size img, im_pixels = im_pixels img, im_info = []\<rparr>
             in if save e (Plain new_img) output_path then Some (Plain new_img) else None)) st"

definition process_raw_cr2 ::
  "env \<Rightarrow> uploaded_file \<Rightarrow> pystr \<Rightarrow> state \<Rightarrow> (bool \<times> state) result" where
  "process_raw_cr2 e image_file output_path st =
     (if \<not> RAW_SUCCESS e then Returned (False, st)
      else with_scratch e image_file output_path
             (case rawpy_postprocess e (getvalue image_file) of
                None \<Rightarrow> None
              | Some img \<Rightarrow>
                  if save e (Jpeg img 95) output_path then Some (Jpeg img 95) else None) st)"

section \<open>Batches\<close>

text \<open>
  The two \<open>for\<close> loops, with the list \<open>processed_files\<close> they build as an accumulator.
  \<open>analyze_image\<close> is called with its default \<open>max_retries = 5\<close>; its calls and sleeps
  leave the session as it is. An exception that leaves the call for one file leaves the
  loop and the batch function: the files after it are not processed and the list of the
  session is not assigned. \<open>strip_one\<close> is the body of the loop of \<open>process_stripping\<close>:
  the output path it chose and the result of the call.
\<close>

fun tagging_loop ::
  "env \<Rightarrow> pystr \<Rightarrow> pystr \<Rightarrow> uploaded_file list \<Rightarrow> pystr list \<Rightarrow> state
     \<Rightarrow> (pystr list \<times> state) result" where
  "tagging_loop e output_dir api_key [] processed st = Returned (processed, st)"
| "tagging_loop e output_dir api_key (file # files) processed st =
     (let output_path = path_join output_dir (name file)
      in case fst (analyze_image e file api_key 5) of
           None \<Rightarrow> tagging_loop e output_dir api_key files processed st
         | Some metadata \<Rightarrow>
             if truthy metadata then
               (case write_image_metadata e file output_path metadata st of
                  Raised st' \<Rightarrow> Raised st'
                | Returned (ok, st') \<Rightarrow>
                    tagging_loop e output_dir api_key files
                      (if ok then processed @ [output_path] else processed) st')
             else tagging_loop e output_dir api_key files processed st)"

definition process_tagging :: "env \<Rightarrow> uploaded_file list \<Rightarrow> pystr \<Rightarrow> state \<Rightarrow> state result" where
  "process_tagging e files api_key st =
     (let output_dir = path_join (temp_dir st) (py ''tagged_images'')
      in case tagging_loop e output_dir api_key files [] st of
           Raised st' \<Rightarrow> Raised st'
         | Returned (processed, st') \<Rightarrow> Returned (st'\<lparr>processed_files := processed\<rparr>))"

definition strip_one ::
  "env \<Rightarrow> pystr \<Rightarrow> uploaded_file \<Rightarrow> state \<Rightarrow> pystr \<times> (bool \<times> state) result" where
  "strip_one e output_dir file st =
     (let is_raw = endswith (lower (name file)) (py ''.cr2'')
      in if is_raw then
           (let output_path = path_join output_dir (fst (splitext (name file)) @ py ''.jpg'')
            in (output_path, process_raw_cr2 e file output_path st))
         else
           (let output_path = path_join output_dir (name file)
            in (output_path, remove_metadata_image e file output_path st)))"

fun stripping_loop ::
  "env \<Rightarrow> pystr \<Rightarrow> uploaded_file list \<Rightarrow> pystr list \<Rightarrow> state \<Rightarrow> (pystr list \<times> state) result" where
  "stripping_loop e output_dir [] processed st = Returned (processed, st)"
| "stripping_loop e output_dir (file # files) processed st =
     (case strip_one e output_dir file st of
        (output_path, Raised st') \<Rightarrow> Raised st'
      | (output_path, Returned (success, st')) \<Rightarrow>
          stripping_loop e output_dir files
            (if success then processed @ [output_path] else processed) st')"

definition process_stripping :: "env \<Rightarrow> uploaded_file list \<Rightarrow> state \<Rightarrow> state result" where
  "process_stripping e files st =
     (let output_dir = path_join (temp_dir st) (py ''stripped_images'')
      in case stripping_loop e output_dir files [] st of
           Raised st' \<Rightarrow> Raised st'
         | Returned (processed, st') \<Rightarrow> Returned (st'\<lparr>processed_files := processed\<rparr>))"

section \<open>The page\<close>

text \<open>
  The download section of a tab. With more than one processed file it writes the ZIP
  archive: the archive is created, then each file is read and stored under its base
  name. Then every processed file is opened for its download button. Reading a file
  that does not exist raises and ends the script run; the flag of the result says that
  the section ran to its end.
\<close>

fun zip_members :: "(pystr \<rightharpoonup> content) \<Rightarrow> pystr list \<Rightarrow> (pystr \<times> content) list \<times> bool" where
  "zip_members disk [] = ([], True)"
| "zip_members disk (file # files) =
     (case disk file of
        None \<Rightarrow> ([], False)
      | Some c \<Rightarrow> (case zip_members disk files of (ms, ok) \<Rightarrow> ((basename file, c) # ms, ok)))"

definition download_section :: "pystr \<Rightarrow> state \<Rightarrow> bool \<times> state" where
  "download_section zip_name st =
     (if processed_files st \<noteq> [] then
        (if length (processed_files st) > 1 then
           (let zip_path = path_join (temp_dir st) zip_name;
                disk = (fs st)(zip_path \<mapsto> Zip [])
            in case zip_members disk (processed_files st) of
                 (ms, ok) \<Rightarrow>
                   (ok \<and> list_all (\<lambda>file_path. (disk(zip_path \<mapsto> Zip ms)) file_path \<noteq> None)
                           (processed_files st),
                    st\<lparr>fs := disk(zip_path \<mapsto> Zip ms)\<rparr>))
         else (list_all (\<lambda>file_path. fs st file_path \<noteq> None) (processed_files st), st))
      else (True, st))"

text \<open>The body of the button "Clear Outputs", which is shown while the list is not empty.\<close>

fun remove_files :: "pystr list \<Rightarrow> (pystr \<rightharpoonup> content) \<Rightarrow> (pystr \<rightharpoonup> content)" where
  "remove_files [] disk = disk"
| "remove_files (file_path # rest) disk =
     remove_files rest (if disk file_path \<noteq> None then disk(file_path := None) else disk)"

definition clear_outputs :: "state \<Rightarrow> state" where
  "clear_outputs st =
     (if processed_files st \<noteq> [] then
        st\<lparr>fs := remove_files (processed_files st) (fs st), processed_files := []\<rparr>
      else st)"

text \<open>
  One run of \<open>main\<close>, for the button that was clicked (at most one a run): the tagging
  tab, then the stripping tab. The buttons that only reset an uploader change neither
  the list nor the disk and are left out. An exception, from a batch or from a download
  section, ends the run; the flag of a tab says that it ran to its end.
\<close>

datatype click =
    No_click
  | Analyze_Images "uploaded_file list" pystr
  | Clear_Outputs_tagging
  | Remove_Metadata "uploaded_file list"
  | Clear_Outputs_stripping

definition tab1 :: "env \<Rightarrow> click \<Rightarrow> state \<Rightarrow> bool \<times> state" where
  "tab1 e c st =
     (case (case c of
              Analyze_Images uploaded_files api_key \<Rightarrow>
                if api_key = [] \<or> uploaded_files = [] then Returned st
                else process_tagging e uploaded_files api_key st
            | _ \<Rightarrow> Returned st) of
        Raised st' \<Rightarrow> (False, st')
      | Returned st1 \<Rightarrow>
          (case download_section (py ''tagged_images.zip'') st1 of
             (ok, st2) \<Rightarrow>
               if \<not> ok then (False, st2)
               else (True, case c of Clear_Outputs_tagging \<Rightarrow> clear_outputs st2 | _ \<Rightarrow> st2)))"

definition tab2 :: "env \<Rightarrow> click \<Rightarrow> state \<Rightarrow> bool \<times> state" where
  "tab2 e c st =
     (case (case c of
              Remove_Metadata uploaded_files \<Rightarrow>
                if uploaded_files = [] then Returned st
                else process_stripping e uploaded_files st
            | _ \<Rightarrow> Returned st) of
        Raised st' \<Rightarrow> (False, st')
      | Returned st1 \<Rightarrow>
          (case download_section (py ''stripped_images.zip'') st1 of
             (ok, st2) \<Rightarrow>
               if \<not> ok then (False, st2)
               else (True, case c of Clear_Outputs_stripping \<Rightarrow> clear_outputs st2 | _ \<Rightarrow> st2)))"

definition main :: "env \<Rightarrow> click \<Rightarrow> state \<Rightarrow> state" where
  "main e c st =
     (case tab1 e c st of
        (ok, st1) \<Rightarrow> if ok then snd (tab2 e c st1) else st1)"

fun runs :: "env \<Rightarrow> click list \<Rightarrow> state \<Rightarrow> state" where
  "runs e [] st = st"
| "runs e (c # cs) st = runs e cs (main e c st)"

section \<open>The invariant of the session\<close>

text \<open>
  \<open>outputs_exist\<close>: every stored output path names a file that exists. \<open>base_names\<close>: no
  name of an uploaded file holds a path separator.
\<close>

definition outputs_exist :: "state \<Rightarrow> bool" where
  "outputs_exist st = list_all (\<lambda>file_path. fs st file_path \<noteq> None) (processed_files st)"

definition base_names :: "uploaded_file list \<Rightarrow> bool" where
  "base_names files = list_all (\<lambda>file. 47 \<notin> set (name file)) files"

section \<open>Example inputs\<close>

text \<open>
  An environment for a given model client and a given JSON parser, in which an image
  opens unless the file is empty, a scratch copy can be written unless the file name is
  longer than 255 characters, and every other library call succeeds; an environment
  whose model answers with the bytes of the image as text; a few uploads and a session.
\<close>

definition env_with :: "(nat \<Rightarrow> response) \<Rightarrow> (pystr \<Rightarrow> loads_result) \<Rightarrow> env" where
  "env_with model loads =
     \<lparr>RAW_SUCCESS = True,
      b64encode = (\<lambda>d. Some d),
      genai_configure = (\<lambda>k. True),
      generate_content = (\<lambda>k b. model),
      json_loads = loads,
      IPTCInfo = (\<lambda>d. Some []),
      Image_open = (\<lambda>d. if d = [] then None
         else Some \<lparr>im_mode = ''RGB'', im_size = (1, 1), im_pixels = d, im_info = []\<rparr>),
      rawpy_postprocess = (\<lambda>d. if d = [] then None
         else Some \<lparr>im_mode = ''RGB'', im_size = (1, 1), im_pixels = d, im_info = []\<rparr>),
      save = (\<lambda>c p. True),
      open_wb = (\<lambda>p. length (basename p) \<le> 255)\<rparr>"

definition parse_ok :: "pystr \<Rightarrow> loads_result" where
  "parse_ok s =
     (if s = py ''ok'' then Loaded (JDict [(py ''caption'', JStr (py ''tee shot''))])
      else JSONDecodeError)"

definition echo_env :: env where
  "echo_env = (env_with (\<lambda>n. Raises) parse_ok)\<lparr>generate_content := (\<lambda>k b n. Text (Some b))\<rparr>"

definition upload_with :: "string \<Rightarrow> string \<Rightarrow> uploaded_file" where
  "upload_with n d = \<lparr>name = py n, getvalue = py d\<rparr>"

definition session0 :: state where
  "session0 =
     \<lparr>temp_dir = py ''/tmp/t'',
      processed_files = [py ''/tmp/t/stripped_images/old.png''],
      fs = [py ''/tmp/t/stripped_images/old.png'' \<mapsto> Uploaded [0]]\<rparr>"

definition upload :: "string \<Rightarrow> uploaded_file" where
  "upload n = \<lparr>name = py n, getvalue = [1, 2, 3]\<rparr>"


text \<open>
  Records the model may answer with: one with a caption, two keywords and an empty
  credit; one whose caption is the empty string; one whose keywords are one string; one
  whose keywords are a number.
\<close>

definition record_full :: json where
  "record_full =
     JDict [(py ''caption'', JStr (py ''tee shot'')),
            (py ''keywords'', JList [JStr (py ''golf''), JStr (py ''joy'')]),
            (py ''credit'', JStr [])]"

definition record_empty_caption :: json where
  "record_empty_caption = JDict [(py ''caption'', JStr [])]"

definition record_scalar_keywords :: json where
  "record_scalar_keywords = JDict [(py ''keywords'', JStr (py ''golf''))]"

definition record_number_keywords :: json where
  "record_number_keywords = JDict [(py ''keywords'', JInt 7)]"

definition pixel_image :: "bytes \<Rightarrow> image" where
  "pixel_image d = \<lparr>im_mode = ''RGB'', im_size = (1, 1), im_pixels = d, im_info = []\<rparr>"

definition session2 :: state where
  "session2 =
     \<lparr>temp_dir = py ''/tmp/t'',
      processed_files = [py ''/tmp/t/tagged_images/a.jpg'', py ''/tmp/t/tagged_images/c.PNG''],
      fs = [py ''/tmp/t/tagged_images/a.jpg'' \<mapsto> Uploaded [1],
            py ''/tmp/t/tagged_images/c.PNG'' \<mapsto> Uploaded [2]]\<rparr>"

definition three_uploads :: "uploaded_file list" where
  "three_uploads =
     [upload_with ''a.jpg'' ''ok'', upload_with ''b.jpg'' ''not json at all'', upload_with ''c.PNG'' ''ok'']"




text \<open>
  An upload whose name has 304 characters; an upload whose name holds a path separator,
  and the environment in which its output cannot be saved, the directory
  \<open>tagged_images/tagged_images\<close> not existing; the session before any batch.
\<close>

definition long_upload :: uploaded_file where
  "long_upload = upload_with (replicate 300 (CHR ''x'') @ ''.jpg'') ''ok''"

definition nested_upload :: uploaded_file where
  "nested_upload = upload_with ''tagged_images/a.jpg'' ''ok''"

definition nested_env :: env where
  "nested_env = echo_env\<lparr>save := (\<lambda>c p. p \<noteq> py ''/tmp/t/tagged_images/tagged_images/a.jpg'')\<rparr>"

definition fresh_session :: state where
  "fresh_session = \<lparr>temp_dir = py ''/tmp/t'', processed_files = [], fs = Map.empty\<rparr>"

section \<open>Retry and backoff\<close>

lemma analyze_loop_raises:
  "analyze_loop e (\<lambda>k. Raises) retries max_retries =
     (if retries \<le> max_retries then
        (if retries < max_retries then
           (fst (analyze_loop e (\<lambda>k. Raises) (retries + 1) max_retries),
            Generate # Sleep (2 ^ nat retries) # snd (analyze_loop e (\<lambda>k. Raises) (retries + 1) max_retries))
         else (None, [Generate]))
      else (None, []))"
  by (subst analyze_loop.simps) (simp add: attempt_def split: prod.splits)

lemma analyze_loop_raises_5:
  "analyze_loop e (\<lambda>k. Raises) 0 5 =
     (None, [Generate, Sleep 1, Generate, Sleep 2, Generate, Sleep 4, Generate, Sleep 8,
             Generate, Sleep 16, Generate])"
proof -
  have 5: "analyze_loop e (\<lambda>k. Raises) 5 5 = (None, [Generate])"
    by (subst analyze_loop_raises) simp
  have 4: "analyze_loop e (\<lambda>k. Raises) 4 5 = (None, [Generate, Sleep 16, Generate])"
    by (subst analyze_loop_raises) (simp add: 5)
  have 3: "analyze_loop e (\<lambda>k. Raises) 3 5 = (None, [Generate, Sleep 8, Generate, Sleep 16, Generate])"
    by (subst analyze_loop_raises) (simp add: 4)
  have 2: "analyze_loop e (\<lambda>k. Raises) 2 5 =
      (None, [Generate, Sleep 4, Generate, Sleep 8, Generate, Sleep 16, Generate])"
    by (subst analyze_loop_raises) (simp add: 3)
  have 1: "analyze_loop e (\<lambda>k. Raises) 1 5 =
      (None, [Generate, Sleep 2, Generate, Sleep 4, Generate, Sleep 8, Generate, Sleep 16, Generate])"
    by (subst analyze_loop_raises) (simp add: 2)
  show ?thesis
    by (subst analyze_loop_raises) (simp add: 1)
qed

text \<open>
  C1. When the model client raises on every call (the image having been encoded and the
  client configured, so that the client is called at all), \<open>analyze_image\<close> with the
  default \<open>max_retries = 5\<close> calls the model six times, sleeps 1, 2, 4, 8 and 16 seconds
  between consecutive calls, and returns \<open>None\<close>.
\<close>

theorem analyze_image_backoff:
  assumes "encode_image e image_file = Some base64_image"
    and "genai_configure e api_key"
    and "\<forall>k. generate_content e api_key base64_image k = Raises"
  shows "analyze_image e image_file api_key 5 =
     (None, [Generate, Sleep 1, Generate, Sleep 2, Generate, Sleep 4, Generate, Sleep 8,
             Generate, Sleep 16, Generate])"
proof -
  from assms(3) have "generate_content e api_key base64_image = (\<lambda>k. Raises)"
    by (simp add: fun_eq_iff)
  with assms(1,2) show ?thesis
    by (simp add: analyze_image_def analyze_loop_raises_5)
qed

theorem analyze_image_backoff_witness:
  "encode_image (env_with (\<lambda>k. Raises) (\<lambda>s. JSONDecodeError)) (upload ''a.jpg'') = Some [1, 2, 3]
   \<and> genai_configure (env_with (\<lambda>k. Raises) (\<lambda>s. JSONDecodeError)) (py ''key'')
   \<and> (\<forall>k. generate_content (env_with (\<lambda>k. Raises) (\<lambda>s. JSONDecodeError)) (py ''key'') [1, 2, 3] k = Raises)
   \<and> analyze_image (env_with (\<lambda>k. Raises) (\<lambda>s. JSONDecodeError)) (upload ''a.jpg'') (py ''key'') 5 =
     (None, [Generate, Sleep 1, Generate, Sleep 2, Generate, Sleep 4, Generate, Sleep 8,
             Generate, Sleep 16, Generate])"
  using analyze_image_backoff [of "env_with (\<lambda>k. Raises) (\<lambda>s. JSONDecodeError)" "upload ''a.jpg''"
      "[1, 2, 3]" "py ''key''"]
  by (simp add: env_with_def upload_def encode_image_def)













section \<open>Paths\<close>

lemma py_inj [simp]: "py a = py b \<longleftrightarrow> a = b"
  by (simp add: py_def inj_map_eq_map inj_of_char)

lemma py_Nil [simp]: "py s = [] \<longleftrightarrow> s = []"
  by (simp add: py_def)


lemma length_py [simp]: "length (py s) = length s"
  by (simp add: py_def)

lemma rfind_absent: "c \<notin> set p \<Longrightarrow> rfind p c = - 1"
proof -
  assume "c \<notin> set p"
  then have "dropWhile (\<lambda>x. x \<noteq> c) (rev p) = []"
    by (auto simp: dropWhile_eq_Nil_conv)
  then show ?thesis by (simp add: rfind_def)
qed

lemma rfind_last: "c \<notin> set e \<Longrightarrow> rfind (stem @ c # e) c = int (length stem)"
proof -
  assume "c \<notin> set e"
  then have "dropWhile (\<lambda>x. x \<noteq> c) (rev e @ c # rev stem) = c # rev stem"
    by (auto simp: dropWhile_append)
  then show ?thesis by (simp add: rfind_def)
qed

lemma path_join_relative:
  "47 \<notin> set b \<Longrightarrow>
   path_join a b = (if a = [] \<or> endswith a [47] then a else a @ [47]) @ b"
  by (cases b) (auto simp: path_join_def startswith_def)

lemma endswith_one: "endswith a [c] \<longleftrightarrow> a \<noteq> [] \<and> last a = c"
proof (cases a rule: rev_cases)
  case Nil
  then show ?thesis by (simp add: endswith_def)
next
  case (snoc xs x)
  then show ?thesis by (simp add: endswith_def)
qed

lemma basename_join: "47 \<notin> set n \<Longrightarrow> basename (path_join d n) = n"
proof -
  assume n: "47 \<notin> set n"
  have suc: "nat (int k + 1) = Suc k" for k
    by simp
  show ?thesis
  proof (cases "d = [] \<or> endswith d [47]")
    case False
    then have "path_join d n = d @ 47 # n"
      using n by (simp add: path_join_relative)
    then show ?thesis
      using n rfind_last [of 47 n d] by (simp add: basename_def suc)
  next
    case True
    then have j: "path_join d n = d @ n"
      using n by (simp add: path_join_relative)
    show ?thesis
    proof (cases "d = []")
      case True
      with j n show ?thesis by (simp add: basename_def rfind_absent)
    next
      case False
      with True obtain d' where "d = d' @ [47]"
        by (metis endswith_one append_butlast_last_id)
      with j n show ?thesis
        using rfind_last [of 47 n d'] by (simp add: basename_def suc)
    qed
  qed
qed


lemma length_basename: "length (basename p) \<le> length p"
  by (simp add: basename_def)

section \<open>The scratch copy\<close>

lemma scratch_frame_eq:
  "scratch_frame f out w st =
     (w \<noteq> None,
      st\<lparr>fs := (case w of Some c \<Rightarrow> (fs st)(out \<mapsto> c) | None \<Rightarrow> fs st)
                 (path_join (temp_dir st) (name f) := None)\<rparr>)"
  by (cases w) (auto simp: scratch_frame_def Let_def fun_eq_iff)

lemma with_scratch_eq:
  "with_scratch e f out w st =
     (if open_wb e (path_join (temp_dir st) (name f))
      then Returned (w \<noteq> None,
             st\<lparr>fs := (case w of Some c \<Rightarrow> (fs st)(out \<mapsto> c) | None \<Rightarrow> fs st)
                        (path_join (temp_dir st) (name f) := None)\<rparr>)
      else Raised st)"
  by (simp add: with_scratch_def scratch_frame_eq)

section \<open>Batches\<close>

text \<open>
  What a batch loop gives. When it returns, the list holds the output paths of the
  files whose pipeline succeeded, in upload order, after the paths it started with. When
  an exception leaves it, the list of the session is the one the session had.
\<close>

lemma tagging_loop_step:
  "tagging_loop e d k (f # files) acc st =
     (case fst (analyze_image e f k 5) of
        None \<Rightarrow> tagging_loop e d k files acc st
      | Some m \<Rightarrow>
          if \<not> truthy m then tagging_loop e d k files acc st
          else if \<not> open_wb e (path_join (temp_dir st) (name f)) then Raised st
          else tagging_loop e d k files
                 (if write_try e f (path_join d (name f)) m \<noteq> None
                  then acc @ [path_join d (name f)] else acc)
                 (st\<lparr>fs := (case write_try e f (path_join d (name f)) m of
                               Some c \<Rightarrow> (fs st)(path_join d (name f) \<mapsto> c)
                             | None \<Rightarrow> fs st)
                            (path_join (temp_dir st) (name f) := None)\<rparr>))"
  by (simp add: Let_def write_image_metadata_def with_scratch_eq split: option.splits)

lemma tagging_loop_Raised:
  "tagging_loop e d k files acc st = Raised st' \<Longrightarrow>
   temp_dir st' = temp_dir st \<and> processed_files st' = processed_files st"
proof (induction files arbitrary: acc st)
  case Nil
  then show ?case by simp
next
  case (Cons f files)
  from Cons.prems show ?case
    unfolding tagging_loop_step
    by (auto split: option.splits if_splits dest!: Cons.IH)
qed

lemma tagging_loop_Returned:
  "tagging_loop e d k files acc st = Returned (ps, st') \<Longrightarrow>
   ps = acc @ map (\<lambda>f. path_join d (name f))
          (filter (\<lambda>f. case fst (analyze_image e f k 5) of
                          None \<Rightarrow> False
                        | Some m \<Rightarrow> truthy m \<and> write_try e f (path_join d (name f)) m \<noteq> None) files)
   \<and> temp_dir st' = temp_dir st \<and> processed_files st' = processed_files st"
proof (induction files arbitrary: acc st)
  case Nil
  then show ?case by simp
next
  case (Cons f files)
  from Cons.prems show ?case
    unfolding tagging_loop_step
    by (auto split: option.splits if_splits dest!: Cons.IH)
qed

lemma process_tagging_Returned:
  "process_tagging e files k st = Returned st' \<Longrightarrow>
   processed_files st' =
     map (\<lambda>f. path_join (path_join (temp_dir st) (py ''tagged_images'')) (name f))
       (filter (\<lambda>f. case fst (analyze_image e f k 5) of
                       None \<Rightarrow> False
                     | Some m \<Rightarrow> truthy m
                         \<and> write_try e f (path_join (path_join (temp_dir st) (py ''tagged_images''))
                               (name f)) m \<noteq> None) files)
   \<and> temp_dir st' = temp_dir st"
  using tagging_loop_Returned [of e "path_join (temp_dir st) (py ''tagged_images'')" k files "[]" st]
  by (auto simp: process_tagging_def Let_def split: result.splits prod.splits)

lemma process_tagging_Raised:
  "process_tagging e files k st = Raised st' \<Longrightarrow>
   processed_files st' = processed_files st \<and> temp_dir st' = temp_dir st"
  using tagging_loop_Raised [of e "path_join (temp_dir st) (py ''tagged_images'')" k files "[]" st]
  by (auto simp: process_tagging_def Let_def split: result.splits prod.splits)

lemma strip_one_Returned:
  "snd (strip_one e d f st) = Returned (ok, st') \<Longrightarrow>
   temp_dir st' = temp_dir st \<and> processed_files st' = processed_files st"
  by (auto simp: strip_one_def Let_def process_raw_cr2_def remove_metadata_image_def with_scratch_eq
      split: if_splits)

lemma strip_one_Raised: "snd (strip_one e d f st) = Raised st' \<Longrightarrow> st' = st"
  by (auto simp: strip_one_def Let_def process_raw_cr2_def remove_metadata_image_def with_scratch_eq
      split: if_splits)

lemma strip_one_any_state:
  "temp_dir st0 = temp_dir st \<Longrightarrow>
   fst (strip_one e d f st) = fst (strip_one e d f st0)
   \<and> (snd (strip_one e d f st) = Returned (ok, st') \<longrightarrow>
        (\<exists>st0'. snd (strip_one e d f st0) = Returned (ok, st0')))"
  by (auto simp: strip_one_def Let_def process_raw_cr2_def remove_metadata_image_def with_scratch_eq
      split: if_splits)

lemma stripping_loop_step:
  "stripping_loop e d (f # files) acc st =
     (case snd (strip_one e d f st) of
        Raised st' \<Rightarrow> Raised st'
      | Returned (ok, st') \<Rightarrow>
          stripping_loop e d files (if ok then acc @ [fst (strip_one e d f st)] else acc) st')"
  by (cases "strip_one e d f st") (simp split: result.splits)

lemma stripping_loop_Raised:
  "stripping_loop e d files acc st = Raised st' \<Longrightarrow>
   temp_dir st' = temp_dir st \<and> processed_files st' = processed_files st"
proof (induction files arbitrary: acc st)
  case Nil
  then show ?case by simp
next
  case (Cons f files)
  from Cons.prems show ?case
    unfolding stripping_loop_step
    by (auto split: result.splits dest!: Cons.IH strip_one_Returned strip_one_Raised)
qed

lemma stripping_loop_Returned:
  "stripping_loop e d files acc st = Returned (ps, st') \<Longrightarrow> temp_dir st0 = temp_dir st \<Longrightarrow>
   ps = acc @ map (\<lambda>f. fst (strip_one e d f st0))
          (filter (\<lambda>f. \<exists>st1. snd (strip_one e d f st0) = Returned (True, st1)) files)
   \<and> temp_dir st' = temp_dir st \<and> processed_files st' = processed_files st"
proof (induction files arbitrary: acc st)
  case Nil
  then show ?case by simp
next
  case (Cons f files)
  from Cons.prems(1) obtain ok st1 where s: "snd (strip_one e d f st) = Returned (ok, st1)"
    and r: "stripping_loop e d files (if ok then acc @ [fst (strip_one e d f st)] else acc) st1
      = Returned (ps, st')"
    unfolding stripping_loop_step by (auto split: result.splits)
  note t = strip_one_Returned [OF s]
  have o: "fst (strip_one e d f st) = fst (strip_one e d f st0)"
    using strip_one_any_state [OF Cons.prems(2), of e d f] by simp
  have k: "(\<exists>st1. snd (strip_one e d f st0) = Returned (True, st1)) = ok"
  proof (cases ok)
    case True
    with s show ?thesis
      using strip_one_any_state [OF Cons.prems(2), of e d f True st1] by simp
  next
    case False
    have "\<not> (\<exists>st1. snd (strip_one e d f st0) = Returned (True, st1))"
    proof
      assume "\<exists>st1. snd (strip_one e d f st0) = Returned (True, st1)"
      then obtain st2 where "snd (strip_one e d f st0) = Returned (True, st2)" by blast
      then have "\<exists>st3. snd (strip_one e d f st) = Returned (True, st3)"
        using strip_one_any_state [OF Cons.prems(2) [symmetric], of e d f True st2] by simp
      with s False show False by simp
    qed
    with False show ?thesis by simp
  qed
  from Cons.IH [OF r] Cons.prems(2) t have
    "ps = (if ok then acc @ [fst (strip_one e d f st)] else acc) @
        map (\<lambda>f. fst (strip_one e d f st0))
          (filter (\<lambda>f. \<exists>st1. snd (strip_one e d f st0) = Returned (True, st1)) files)
     \<and> temp_dir st' = temp_dir st \<and> processed_files st' = processed_files st"
    by simp
  then show ?case
    using o k by simp
qed

lemma process_stripping_Returned:
  "process_stripping e files st = Returned st' \<Longrightarrow>
   processed_files st' =
     map (\<lambda>f. fst (strip_one e (path_join (temp_dir st) (py ''stripped_images'')) f st))
       (filter (\<lambda>f. \<exists>st1. snd (strip_one e (path_join (temp_dir st) (py ''stripped_images'')) f st)
                          = Returned (True, st1)) files)
   \<and> temp_dir st' = temp_dir st"
  using stripping_loop_Returned [of e "path_join (temp_dir st) (py ''stripped_images'')" files "[]" st _ _ st]
  by (auto simp: process_stripping_def Let_def split: result.splits prod.splits)

lemma process_stripping_Raised:
  "process_stripping e files st = Raised st' \<Longrightarrow>
   processed_files st' = processed_files st \<and> temp_dir st' = temp_dir st"
  using stripping_loop_Raised [of e "path_join (temp_dir st) (py ''stripped_images'')" files "[]" st]
  by (auto simp: process_stripping_def Let_def split: result.splits prod.splits)

section \<open>The example environment\<close>

lemma sanitize_ok: "sanitize (py ''ok'') = py ''ok''"
  by (simp add: sanitize_def strip_fences_def strip_def startswith_def isspace_def control_char_def py_def)

lemma sanitize_plain: "sanitize (py ''not json at all'') = py ''not json at all''"
  by (simp add: sanitize_def strip_fences_def strip_def startswith_def isspace_def control_char_def py_def)

lemma analyze_echo_ok:
  "analyze_image echo_env (upload_with n ''ok'') (py ''key'') 5 =
     (Some (JDict [(py ''caption'', JStr (py ''tee shot''))]), [Generate])"
  by (simp add: analyze_image_def encode_image_def echo_env_def env_with_def upload_with_def
      analyze_loop.simps attempt_def sanitize_ok parse_ok_def Let_def)

lemma analyze_echo_bad:
  "analyze_image echo_env (upload_with n ''not json at all'') (py ''key'') 5 = (None, [Generate])"
  by (simp add: analyze_image_def encode_image_def echo_env_def env_with_def upload_with_def
      analyze_loop.simps attempt_def sanitize_plain parse_ok_def Let_def)

lemma ext_examples:
  "lower (snd (splitext (py ''a.jpg''))) = py ''.jpg''"
  "lower (snd (splitext (py ''b.jpg''))) = py ''.jpg''"
  "lower (snd (splitext (py ''c.PNG''))) = py ''.png''"
  "lower (snd (splitext (py ''d.gif''))) = py ''.gif''"
  by (simp_all add: lower_def lower_char_def splitext_def rfind_def py_def)

lemma py_no_surrogate [simp]: "filter surrogate (py s) = []"
proof -
  have "\<not> surrogate (of_char c)" for c :: char
    using nat_of_char_less_256 [of c] unfolding surrogate_def by linarith
  then show ?thesis by (simp add: py_def)
qed

lemma write_try_echo_ok:
  "write_try echo_env (upload_with ''a.jpg'' ''ok'') out (JDict [(py ''caption'', JStr (py ''tee shot''))])
     = Some (Iptc_jpeg (py ''ok'') [(py ''caption/abstract'', IText (py ''tee shot''))])"
  "write_try echo_env (upload_with ''c.PNG'' ''ok'') out (JDict [(py ''caption'', JStr (py ''tee shot''))])
     = Some (Png \<lparr>im_mode = ''RGB'', im_size = (1, 1), im_pixels = py ''ok'', im_info = []\<rparr>
          [(py ''caption'', py ''tee shot'')])"
  by (simp_all add: write_try_def upload_with_def ext_examples jpeg_branch_def png_branch_def
      echo_env_def env_with_def jpeg_fields_def png_fields_def set_text_def set_keywords_def
      add_text_def add_keywords_def py_get_def dict_get_def recode_def)

lemma upload_with_sel [simp]:
  "name (upload_with n d) = py n" "getvalue (upload_with n d) = py d"
  by (simp_all add: upload_with_def)

lemma session0_sel [simp]:
  "temp_dir session0 = py ''/tmp/t''"
  "processed_files session0 = [py ''/tmp/t/stripped_images/old.png'']"
  by (simp_all add: session0_def)


lemma path_examples:
  "path_join (py ''/tmp/t'') (py ''tagged_images'') = py ''/tmp/t/tagged_images''"
  "path_join (py ''/tmp/t'') (py ''stripped_images'') = py ''/tmp/t/stripped_images''"
  "path_join (py ''/tmp/t/tagged_images'') (py ''a.jpg'') = py ''/tmp/t/tagged_images/a.jpg''"
  "path_join (py ''/tmp/t/tagged_images'') (py ''b.jpg'') = py ''/tmp/t/tagged_images/b.jpg''"
  "path_join (py ''/tmp/t/tagged_images'') (py ''c.PNG'') = py ''/tmp/t/tagged_images/c.PNG''"
  "path_join (py ''/tmp/t/tagged_images'') (py ''d.gif'') = py ''/tmp/t/tagged_images/d.gif''"
  "path_join (py ''/tmp/t/stripped_images'') (py ''a.gif'') = py ''/tmp/t/stripped_images/a.gif''"
  "path_join (py ''/tmp/t/stripped_images'') (py ''b.bmp'') = py ''/tmp/t/stripped_images/b.bmp''"
  "path_join (py ''/tmp/t/stripped_images'') (py ''C.jpg'') = py ''/tmp/t/stripped_images/C.jpg''"
  "path_join (py ''/tmp/t'') (py ''a.jpg'') = py ''/tmp/t/a.jpg''"
  "path_join (py ''/tmp/t'') (py ''b.jpg'') = py ''/tmp/t/b.jpg''"
  "path_join (py ''/tmp/t'') (py ''c.PNG'') = py ''/tmp/t/c.PNG''"
  "path_join (py ''/tmp/t'') (py ''d.gif'') = py ''/tmp/t/d.gif''"
  "path_join (py ''/tmp/t'') (py ''a.gif'') = py ''/tmp/t/a.gif''"
  "path_join (py ''/tmp/t'') (py ''b.bmp'') = py ''/tmp/t/b.bmp''"
  "path_join (py ''/tmp/t'') (py ''C.CR2'') = py ''/tmp/t/C.CR2''"
  by (simp_all add: path_join_def startswith_def endswith_def py_def)

lemma open_wb_echo: "length p \<le> 255 \<Longrightarrow> open_wb echo_env p"
  using length_basename [of p] by (simp add: echo_env_def env_with_def)

lemma echo_env_sel:
  "Image_open echo_env d = (if d = [] then None else Some (pixel_image d))"
  "rawpy_postprocess echo_env d = (if d = [] then None else Some (pixel_image d))"
  "IPTCInfo echo_env d = Some []"
  "save echo_env c p"
  "RAW_SUCCESS echo_env"
  by (simp_all add: echo_env_def env_with_def pixel_image_def)

lemma strip_one_examples:
  "strip_one e (py ''/tmp/t/stripped_images'') (upload_with ''a.gif'' ''x'') st
     = (py ''/tmp/t/stripped_images/a.gif'',
        remove_metadata_image e (upload_with ''a.gif'' ''x'') (py ''/tmp/t/stripped_images/a.gif'') st)"
  "strip_one e (py ''/tmp/t/stripped_images'') (upload_with ''b.bmp'' []) st
     = (py ''/tmp/t/stripped_images/b.bmp'',
        remove_metadata_image e (upload_with ''b.bmp'' []) (py ''/tmp/t/stripped_images/b.bmp'') st)"
  "strip_one e (py ''/tmp/t/stripped_images'') (upload_with ''C.CR2'' ''y'') st
     = (py ''/tmp/t/stripped_images/C.jpg'',
        process_raw_cr2 e (upload_with ''C.CR2'' ''y'') (py ''/tmp/t/stripped_images/C.jpg'') st)"
  by (simp_all add: strip_one_def Let_def path_join_def startswith_def endswith_def py_def
      lower_def lower_char_def splitext_def rfind_def upload_with_def)

text \<open>The upload with the long name: the model describes it, its scratch copy cannot be written.\<close>

lemma long_upload_name:
  "name long_upload = replicate 300 120 @ py ''.jpg''"
  "getvalue long_upload = py ''ok''"
  "length (name long_upload) = 304"
  "47 \<notin> set (name long_upload)"
  by (simp_all add: long_upload_def upload_with_def py_def)

lemma analyze_long:
  "analyze_image echo_env long_upload (py ''key'') 5 =
     (Some (JDict [(py ''caption'', JStr (py ''tee shot''))]), [Generate])"
  by (simp add: long_upload_def analyze_echo_ok)

lemma scratch_long: "open_wb echo_env (path_join d (name long_upload)) = False"
  by (simp add: echo_env_def env_with_def basename_join long_upload_name(3,4))

lemma lower_jpg: "lower (replicate n 120 @ py ''.jpg'') = replicate n 120 @ py ''.jpg''"
  by (induction n) (simp_all add: lower_def lower_char_def py_def)

lemma long_not_raw: "endswith (lower (name long_upload)) (py ''.cr2'') = False"
  by (simp add: long_upload_name(1) lower_jpg endswith_def)

lemma strip_one_long:
  "strip_one echo_env d long_upload st = (path_join d (name long_upload), Raised st)"
  by (simp add: strip_one_def Let_def long_not_raw remove_metadata_image_def with_scratch_eq
      scratch_long)

text \<open>
  C3. Both batch functions walk the uploaded files in upload order, keep the output
  path of a file only when its pipeline reports success, and store the list they built
  over the list of the session. A file whose scratch copy cannot be written is a failed
  file that does abort the loop: here the second of three uploads has a name of 304
  characters, the scratch copy of it cannot be created, and the exception leaves
  \<open>process_tagging\<close> and \<open>process_stripping\<close>. The first file has been written, the
  third is never processed, and the session still holds the list it had before the
  batch, with neither the output of the first file in it nor the old list discarded.
\<close>

theorem batch_aborted_by_scratch_copy:
  "length (name long_upload) = 304
   \<and> processed_files session0 = [py ''/tmp/t/stripped_images/old.png'']
   \<and> process_tagging echo_env
       [upload_with ''a.jpg'' ''ok'', long_upload, upload_with ''c.PNG'' ''ok''] (py ''key'') session0 =
     Raised (session0\<lparr>fs := (fs session0)
       (py ''/tmp/t/tagged_images/a.jpg'' \<mapsto>
          Iptc_jpeg (py ''ok'') [(py ''caption/abstract'', IText (py ''tee shot''))],
        py ''/tmp/t/a.jpg'' := None)\<rparr>)
   \<and> process_stripping echo_env
       [upload_with ''a.gif'' ''x'', long_upload, upload_with ''C.CR2'' ''y''] session0 =
     Raised (session0\<lparr>fs := (fs session0)
       (py ''/tmp/t/stripped_images/a.gif'' \<mapsto> Plain (pixel_image (py ''x'')),
        py ''/tmp/t/a.gif'' := None)\<rparr>)"
proof (intro conjI)
  show "length (name long_upload) = 304"
    by (rule long_upload_name(3))
  show "processed_files session0 = [py ''/tmp/t/stripped_images/old.png'']"
    by (rule session0_sel(2))
  show "process_tagging echo_env
       [upload_with ''a.jpg'' ''ok'', long_upload, upload_with ''c.PNG'' ''ok''] (py ''key'') session0 =
     Raised (session0\<lparr>fs := (fs session0)
       (py ''/tmp/t/tagged_images/a.jpg'' \<mapsto>
          Iptc_jpeg (py ''ok'') [(py ''caption/abstract'', IText (py ''tee shot''))],
        py ''/tmp/t/a.jpg'' := None)\<rparr>)"
    by (simp add: process_tagging_def Let_def write_image_metadata_def with_scratch_eq
        path_examples analyze_echo_ok analyze_long write_try_echo_ok open_wb_echo scratch_long)
  show "process_stripping echo_env
       [upload_with ''a.gif'' ''x'', long_upload, upload_with ''C.CR2'' ''y''] session0 =
     Raised (session0\<lparr>fs := (fs session0)
       (py ''/tmp/t/stripped_images/a.gif'' \<mapsto> Plain (pixel_image (py ''x'')),
        py ''/tmp/t/a.gif'' := None)\<rparr>)"
    by (simp add: process_stripping_def Let_def path_examples strip_one_examples
        remove_metadata_image_def with_scratch_eq echo_env_sel open_wb_echo
        strip_one_long pixel_image_def)
qed

section \<open>Dispatch on the extension\<close>

lemma write_try_unsupported:
  "lower (snd (splitext (name f))) \<noteq> py ''.jpg'' \<Longrightarrow>
   lower (snd (splitext (name f))) \<noteq> py ''.jpeg'' \<Longrightarrow>
   lower (snd (splitext (name f))) \<noteq> py ''.png'' \<Longrightarrow> write_try e f out m = None"
  by (simp add: write_try_def Let_def)

lemma tagging_loop_Raised_scratch:
  "tagging_loop e d k files acc st = Raised st' \<Longrightarrow>
   \<exists>file\<in>set files. \<not> open_wb e (path_join (temp_dir st) (name file))"
proof (induction files arbitrary: acc st)
  case Nil
  then show ?case by simp
next
  case (Cons f files)
  from Cons.prems show ?case
    unfolding tagging_loop_step
    by (auto split: option.splits if_splits dest!: Cons.IH)
qed

lemma process_tagging_Raised_scratch:
  "process_tagging e files k st = Raised st' \<Longrightarrow>
   \<exists>file\<in>set files. \<not> open_wb e (path_join (temp_dir st) (name file))"
  using tagging_loop_Raised_scratch [of e "path_join (temp_dir st) (py ''tagged_images'')" k files "[]" st]
  by (auto simp: process_tagging_def Let_def split: result.splits prod.splits)

text \<open>
  C5. \<open>write_image_metadata\<close> dispatches on the lower-cased extension of the file name:
  \<open>.jpg\<close> and \<open>.jpeg\<close> run the JPEG branch, \<open>.png\<close> runs the PNG branch, and with any
  other extension it returns \<open>False\<close> having written nothing (the scratch copy is made
  and removed; when the scratch copy cannot be made the exception leaves the function,
  whatever the extension). A tagging batch of files with other extensions, a \<open>.gif\<close> for
  one, therefore stores no output path: it stores the empty list, unless the scratch copy
  of one of its files cannot be made, and then it stores nothing at all.
\<close>

theorem write_image_metadata_dispatch:
  "(lower (snd (splitext (name image_file))) = py ''.jpg''
      \<or> lower (snd (splitext (name image_file))) = py ''.jpeg''
    \<longrightarrow> write_image_metadata e image_file output_path metadata st =
          with_scratch e image_file output_path
            (jpeg_branch e (getvalue image_file) output_path metadata) st)
   \<and> (lower (snd (splitext (name image_file))) = py ''.png''
    \<longrightarrow> write_image_metadata e image_file output_path metadata st =
          with_scratch e image_file output_path
            (png_branch e (getvalue image_file) output_path metadata) st)
   \<and> (lower (snd (splitext (name image_file))) \<noteq> py ''.jpg''
      \<and> lower (snd (splitext (name image_file))) \<noteq> py ''.jpeg''
      \<and> lower (snd (splitext (name image_file))) \<noteq> py ''.png''
    \<longrightarrow> write_image_metadata e image_file output_path metadata st =
          (if open_wb e (path_join (temp_dir st) (name image_file))
           then Returned (False, st\<lparr>fs := (fs st)(path_join (temp_dir st) (name image_file) := None)\<rparr>)
           else Raised st))
   \<and> ((\<forall>file \<in> set files.
          lower (snd (splitext (name file))) \<noteq> py ''.jpg''
        \<and> lower (snd (splitext (name file))) \<noteq> py ''.jpeg''
        \<and> lower (snd (splitext (name file))) \<noteq> py ''.png'')
    \<longrightarrow> (case process_tagging e files api_key st of
            Returned st' \<Rightarrow> processed_files st' = []
          | Raised st' \<Rightarrow>
              processed_files st' = processed_files st
              \<and> (\<exists>file \<in> set files. \<not> open_wb e (path_join (temp_dir st) (name file)))))"
proof (intro conjI impI)
  assume "lower (snd (splitext (name image_file))) = py ''.jpg''
      \<or> lower (snd (splitext (name image_file))) = py ''.jpeg''"
  then show "write_image_metadata e image_file output_path metadata st =
          with_scratch e image_file output_path
            (jpeg_branch e (getvalue image_file) output_path metadata) st"
    by (auto simp: write_image_metadata_def write_try_def Let_def)
next
  assume "lower (snd (splitext (name image_file))) = py ''.png''"
  then show "write_image_metadata e image_file output_path metadata st =
          with_scratch e image_file output_path
            (png_branch e (getvalue image_file) output_path metadata) st"
    by (simp add: write_image_metadata_def write_try_def Let_def)
next
  assume "lower (snd (splitext (name image_file))) \<noteq> py ''.jpg''
      \<and> lower (snd (splitext (name image_file))) \<noteq> py ''.jpeg''
      \<and> lower (snd (splitext (name image_file))) \<noteq> py ''.png''"
  then show "write_image_metadata e image_file output_path metadata st =
          (if open_wb e (path_join (temp_dir st) (name image_file))
           then Returned (False, st\<lparr>fs := (fs st)(path_join (temp_dir st) (name image_file) := None)\<rparr>)
           else Raised st)"
    by (simp add: write_image_metadata_def write_try_unsupported with_scratch_eq)
next
  assume a: "\<forall>file \<in> set files.
          lower (snd (splitext (name file))) \<noteq> py ''.jpg''
        \<and> lower (snd (splitext (name file))) \<noteq> py ''.jpeg''
        \<and> lower (snd (splitext (name file))) \<noteq> py ''.png''"
  have none: "filter (\<lambda>f. case fst (analyze_image e f api_key 5) of
                       None \<Rightarrow> False
                     | Some m \<Rightarrow> truthy m
                         \<and> write_try e f (path_join (path_join (temp_dir st) (py ''tagged_images'')) (name f)) m \<noteq> None)
          files = []"
    using a by (auto simp: filter_empty_conv write_try_unsupported split: option.splits)
  show "case process_tagging e files api_key st of
            Returned st' \<Rightarrow> processed_files st' = []
          | Raised st' \<Rightarrow>
              processed_files st' = processed_files st
              \<and> (\<exists>file \<in> set files. \<not> open_wb e (path_join (temp_dir st) (name file)))"
  proof (cases "process_tagging e files api_key st")
    case (Returned st')
    then show ?thesis
      using process_tagging_Returned [OF Returned] none by simp
  next
    case (Raised st')
    then show ?thesis
      using process_tagging_Raised [OF Raised] process_tagging_Raised_scratch [OF Raised] by simp
  qed
qed

lemma branch_examples:
  "jpeg_branch echo_env (py ''ok'') out (JDict [(py ''caption'', JStr (py ''tee shot''))])
     = Some (Iptc_jpeg (py ''ok'') [(py ''caption/abstract'', IText (py ''tee shot''))])"
  "png_branch echo_env (py ''ok'') out (JDict [(py ''caption'', JStr (py ''tee shot''))])
     = Some (Png \<lparr>im_mode = ''RGB'', im_size = (1, 1), im_pixels = py ''ok'', im_info = []\<rparr>
          [(py ''caption'', py ''tee shot'')])"
  by (simp_all add: jpeg_branch_def png_branch_def
      echo_env_def env_with_def jpeg_fields_def png_fields_def set_text_def set_keywords_def
      add_text_def add_keywords_def py_get_def dict_get_def recode_def)


theorem write_image_metadata_dispatch_witness:
  "lower (snd (splitext (name (upload_with ''a.jpg'' ''ok'')))) = py ''.jpg''
   \<and> write_image_metadata echo_env (upload_with ''a.jpg'' ''ok'') (py ''/tmp/t/tagged_images/a.jpg'')
        (JDict [(py ''caption'', JStr (py ''tee shot''))]) session0 =
      with_scratch echo_env (upload_with ''a.jpg'' ''ok'') (py ''/tmp/t/tagged_images/a.jpg'')
        (Some (Iptc_jpeg (py ''ok'') [(py ''caption/abstract'', IText (py ''tee shot''))])) session0
   \<and> lower (snd (splitext (name (upload_with ''c.PNG'' ''ok'')))) = py ''.png''
   \<and> write_image_metadata echo_env (upload_with ''c.PNG'' ''ok'') (py ''/tmp/t/tagged_images/c.PNG'')
        (JDict [(py ''caption'', JStr (py ''tee shot''))]) session0 =
      with_scratch echo_env (upload_with ''c.PNG'' ''ok'') (py ''/tmp/t/tagged_images/c.PNG'')
        (Some (Png \<lparr>im_mode = ''RGB'', im_size = (1, 1), im_pixels = py ''ok'', im_info = []\<rparr>
           [(py ''caption'', py ''tee shot'')])) session0
   \<and> lower (snd (splitext (name (upload_with ''d.gif'' ''ok'')))) = py ''.gif''
   \<and> open_wb echo_env (path_join (temp_dir session0) (name (upload_with ''d.gif'' ''ok'')))
   \<and> write_image_metadata echo_env (upload_with ''d.gif'' ''ok'') (py ''/tmp/t/tagged_images/d.gif'')
        (JDict [(py ''caption'', JStr (py ''tee shot''))]) session0 =
      Returned (False, session0\<lparr>fs := (fs session0)(py ''/tmp/t/d.gif'' := None)\<rparr>)
   \<and> process_tagging echo_env [upload_with ''d.gif'' ''ok''] (py ''key'') session0 =
      Returned (session0\<lparr>fs := (fs session0)(py ''/tmp/t/d.gif'' := None), processed_files := []\<rparr>)
   \<and> processed_files (session0\<lparr>fs := (fs session0)(py ''/tmp/t/d.gif'' := None), processed_files := []\<rparr>) = []"
  using write_image_metadata_dispatch [of "upload_with ''a.jpg'' ''ok''" echo_env
      "py ''/tmp/t/tagged_images/a.jpg''" "JDict [(py ''caption'', JStr (py ''tee shot''))]" session0 "[]"]
    write_image_metadata_dispatch [of "upload_with ''c.PNG'' ''ok''" echo_env
      "py ''/tmp/t/tagged_images/c.PNG''" "JDict [(py ''caption'', JStr (py ''tee shot''))]" session0 "[]"]
    write_image_metadata_dispatch [of "upload_with ''d.gif'' ''ok''" echo_env
      "py ''/tmp/t/tagged_images/d.gif''" "JDict [(py ''caption'', JStr (py ''tee shot''))]" session0
      "[upload_with ''d.gif'' ''ok'']" "py ''key''"]
  by (simp add: ext_examples branch_examples path_examples open_wb_echo
      process_tagging_def Let_def analyze_echo_ok write_image_metadata_def with_scratch_eq
      write_try_unsupported)

section \<open>The fields that are written\<close>







lemma map_of_dict_set:
  "map_of (dict_set k v kvs) k' = (if k' = k then Some v else map_of kvs k')"
  by (induction kvs) auto

lemma recode_Some: "recode v = Some s \<Longrightarrow> v = JStr s"
  by (auto simp: recode_def split: json.splits if_splits)

lemma recode_all_Some: "recode_all ks = Some ss \<Longrightarrow> ss = map str_of ks \<and> list_all is_str ks"
proof (induction ks arbitrary: ss)
  case Nil
  then show ?case by simp
next
  case (Cons k ks)
  then show ?case
    by (auto split: option.splits dest: recode_Some)
qed

lemma set_text_Some:
  "set_text (JDict kvs) key field i = Some i' \<Longrightarrow>
   (if truthy (dict_get kvs key)
    then is_str (dict_get kvs key) \<and> i' = dict_set field (IText (str_of (dict_get kvs key))) i
    else i' = i)"
  by (auto simp: set_text_def py_get_def split: option.splits if_splits dest: recode_Some)

lemma set_keywords_Some:
  "set_keywords (JDict kvs) i = Some i' \<Longrightarrow>
   (if truthy (dict_get kvs (py ''keywords'')) \<and> is_list (dict_get kvs (py ''keywords''))
    then list_all is_str (case dict_get kvs (py ''keywords'') of JList ks \<Rightarrow> ks | _ \<Rightarrow> [])
       \<and> i' = dict_set (py ''keywords'') (IList (strs_of (dict_get kvs (py ''keywords'')))) i
    else i' = i)"
  by (auto simp: set_keywords_def py_get_def split: option.splits if_splits json.splits
      dest: recode_all_Some)

lemma add_text_Some:
  "add_text (JDict kvs) key p = Some p' \<Longrightarrow>
   (if truthy (dict_get kvs key)
    then is_str (dict_get kvs key) \<and> p' = p @ [(key, str_of (dict_get kvs key))]
    else p' = p)"
  by (auto simp: add_text_def py_get_def split: option.splits if_splits dest: recode_Some)

lemma add_keywords_Some:
  "add_keywords (JDict kvs) p = Some p' \<Longrightarrow>
   (if truthy (dict_get kvs (py ''keywords''))
    then (is_str (dict_get kvs (py ''keywords''))
          \<or> is_list (dict_get kvs (py ''keywords''))
            \<and> list_all is_str (case dict_get kvs (py ''keywords'') of JList ks \<Rightarrow> ks | _ \<Rightarrow> []))
       \<and> p' = p @ [(py ''keywords'', text_of (dict_get kvs (py ''keywords'')))]
    else p' = p)"
  by (auto simp: add_keywords_def py_get_def text_of_def split: option.splits if_splits json.splits
      dest: recode_all_Some recode_Some)

lemma text_of_str: "is_str v \<Longrightarrow> text_of v = str_of v"
  by (cases v) (simp_all add: text_of_def)

lemma png_fields_Some:
  assumes "png_fields (JDict kvs) = Some chunks"
  shows "chunks = concat (map (\<lambda>k. if truthy (dict_get kvs k) then [(k, text_of (dict_get kvs k))] else [])
            [py ''caption'', py ''keywords'', py ''byline'', py ''credit'', py ''source''])"
proof -
  from assms obtain p1 p2 p3 p4 where
    1: "add_text (JDict kvs) (py ''caption'') [] = Some p1" and
    2: "add_keywords (JDict kvs) p1 = Some p2" and
    3: "add_text (JDict kvs) (py ''byline'') p2 = Some p3" and
    4: "add_text (JDict kvs) (py ''credit'') p3 = Some p4" and
    5: "add_text (JDict kvs) (py ''source'') p4 = Some chunks"
    by (auto simp: png_fields_def bind_eq_Some_conv)
  have s1: "p1 = (if truthy (dict_get kvs (py ''caption''))
                  then [(py ''caption'', text_of (dict_get kvs (py ''caption'')))] else [])"
    using add_text_Some [OF 1] by (auto simp: text_of_str split: if_splits)
  have s2: "p2 = p1 @ (if truthy (dict_get kvs (py ''keywords''))
                  then [(py ''keywords'', text_of (dict_get kvs (py ''keywords'')))] else [])"
    using add_keywords_Some [OF 2] by (auto split: if_splits)
  have s3: "p3 = p2 @ (if truthy (dict_get kvs (py ''byline''))
                  then [(py ''byline'', text_of (dict_get kvs (py ''byline'')))] else [])"
    using add_text_Some [OF 3] by (auto simp: text_of_str split: if_splits)
  have s4: "p4 = p3 @ (if truthy (dict_get kvs (py ''credit''))
                  then [(py ''credit'', text_of (dict_get kvs (py ''credit'')))] else [])"
    using add_text_Some [OF 4] by (auto simp: text_of_str split: if_splits)
  have s5: "chunks = p4 @ (if truthy (dict_get kvs (py ''source''))
                  then [(py ''source'', text_of (dict_get kvs (py ''source'')))] else [])"
    using add_text_Some [OF 5] by (auto simp: text_of_str split: if_splits)
  show ?thesis
    unfolding s5 s4 s3 s2 s1 by simp
qed

lemma jpeg_fields_Some:
  assumes "jpeg_fields (JDict kvs) i = Some i'"
  shows "map_of i' field =
     (if field = py ''caption/abstract'' \<and> truthy (dict_get kvs (py ''caption''))
        then Some (IText (str_of (dict_get kvs (py ''caption''))))
      else if field = py ''keywords'' \<and> truthy (dict_get kvs (py ''keywords''))
                \<and> is_list (dict_get kvs (py ''keywords''))
        then Some (IList (strs_of (dict_get kvs (py ''keywords''))))
      else if field = py ''by-line'' \<and> truthy (dict_get kvs (py ''byline''))
        then Some (IText (str_of (dict_get kvs (py ''byline''))))
      else if field = py ''credit'' \<and> truthy (dict_get kvs (py ''credit''))
        then Some (IText (str_of (dict_get kvs (py ''credit''))))
      else if field = py ''source'' \<and> truthy (dict_get kvs (py ''source''))
        then Some (IText (str_of (dict_get kvs (py ''source''))))
      else map_of i field)"
proof -
  from assms obtain i1 i2 i3 i4 where
    1: "set_text (JDict kvs) (py ''caption'') (py ''caption/abstract'') i = Some i1" and
    2: "set_keywords (JDict kvs) i1 = Some i2" and
    3: "set_text (JDict kvs) (py ''byline'') (py ''by-line'') i2 = Some i3" and
    4: "set_text (JDict kvs) (py ''credit'') (py ''credit'') i3 = Some i4" and
    5: "set_text (JDict kvs) (py ''source'') (py ''source'') i4 = Some i'"
    by (auto simp: jpeg_fields_def bind_eq_Some_conv)
  have s1: "map_of i1 field = (if field = py ''caption/abstract'' \<and> truthy (dict_get kvs (py ''caption''))
        then Some (IText (str_of (dict_get kvs (py ''caption'')))) else map_of i field)"
    using set_text_Some [OF 1] by (auto simp: map_of_dict_set split: if_splits)
  have s2: "map_of i2 field = (if field = py ''keywords'' \<and> truthy (dict_get kvs (py ''keywords''))
                \<and> is_list (dict_get kvs (py ''keywords''))
        then Some (IList (strs_of (dict_get kvs (py ''keywords'')))) else map_of i1 field)"
    using set_keywords_Some [OF 2] by (auto simp: map_of_dict_set split: if_splits)
  have s3: "map_of i3 field = (if field = py ''by-line'' \<and> truthy (dict_get kvs (py ''byline''))
        then Some (IText (str_of (dict_get kvs (py ''byline'')))) else map_of i2 field)"
    using set_text_Some [OF 3] by (auto simp: map_of_dict_set split: if_splits)
  have s4: "map_of i4 field = (if field = py ''credit'' \<and> truthy (dict_get kvs (py ''credit''))
        then Some (IText (str_of (dict_get kvs (py ''credit'')))) else map_of i3 field)"
    using set_text_Some [OF 4] by (auto simp: map_of_dict_set split: if_splits)
  have s5: "map_of i' field = (if field = py ''source'' \<and> truthy (dict_get kvs (py ''source''))
        then Some (IText (str_of (dict_get kvs (py ''source'')))) else map_of i4 field)"
    using set_text_Some [OF 5] by (auto simp: map_of_dict_set split: if_splits)
  show ?thesis
    unfolding s5 s4 s3 s2 s1 by auto
qed


lemma write_image_metadata_True:
  assumes "write_image_metadata e f out m st = Returned (True, st')"
    and "out \<noteq> path_join (temp_dir st) (name f)"
  shows "\<exists>c. write_try e f out m = Some c \<and> fs st' out = Some c"
  using assms
  by (auto simp: write_image_metadata_def with_scratch_eq split: if_splits option.splits)

lemma write_try_Some:
  assumes "write_try e f out m = Some c"
  shows "(\<exists>i i'. IPTCInfo e (getvalue f) = Some i \<and> jpeg_fields m i = Some i'
            \<and> c = Iptc_jpeg (getvalue f) i')
       \<or> (\<exists>im chunks. Image_open e (getvalue f) = Some im \<and> png_fields m = Some chunks
            \<and> c = Png im chunks)"
  using assms
  by (auto simp: write_try_def Let_def jpeg_branch_def png_branch_def
      split: if_splits option.splits)


text \<open>
  C4, as amended. When \<open>write_image_metadata\<close> succeeds on a record (a JSON object), the
  output holds exactly the fields whose value in the record is truthy, and nothing for a
  key that is absent or present with a falsy value. In a PNG the text chunks are, in the
  order caption, keywords, byline, credit, source, those of the keys with a truthy value,
  each with the text of the value. In a JPEG each of the IPTC fields \<open>caption/abstract\<close>,
  \<open>by-line\<close>, \<open>credit\<close> and \<open>source\<close> is set when the value of its key is truthy, the field
  \<open>keywords\<close> is set when the value is a non-empty list, and every other field is as the
  input file had it.
\<close>

theorem written_fields:
  "write_image_metadata e image_file output_path (JDict kvs) st = Returned (True, st')
   \<and> output_path \<noteq> path_join (temp_dir st) (name image_file)
   \<longrightarrow>
   (\<exists>info info'. IPTCInfo e (getvalue image_file) = Some info
      \<and> fs st' output_path = Some (Iptc_jpeg (getvalue image_file) info')
      \<and> (\<forall>field. map_of info' field =
           (if field = py ''caption/abstract'' \<and> truthy (dict_get kvs (py ''caption''))
              then Some (IText (str_of (dict_get kvs (py ''caption''))))
            else if field = py ''keywords'' \<and> truthy (dict_get kvs (py ''keywords''))
                      \<and> is_list (dict_get kvs (py ''keywords''))
              then Some (IList (strs_of (dict_get kvs (py ''keywords''))))
            else if field = py ''by-line'' \<and> truthy (dict_get kvs (py ''byline''))
              then Some (IText (str_of (dict_get kvs (py ''byline''))))
            else if field = py ''credit'' \<and> truthy (dict_get kvs (py ''credit''))
              then Some (IText (str_of (dict_get kvs (py ''credit''))))
            else if field = py ''source'' \<and> truthy (dict_get kvs (py ''source''))
              then Some (IText (str_of (dict_get kvs (py ''source''))))
            else map_of info field)))
   \<or> (\<exists>im. Image_open e (getvalue image_file) = Some im
      \<and> fs st' output_path =
          Some (Png im (concat (map
            (\<lambda>key. if truthy (dict_get kvs key) then [(key, text_of (dict_get kvs key))] else [])
            [py ''caption'', py ''keywords'', py ''byline'', py ''credit'', py ''source'']))))"
proof
  assume a: "write_image_metadata e image_file output_path (JDict kvs) st = Returned (True, st')
   \<and> output_path \<noteq> path_join (temp_dir st) (name image_file)"
  then obtain c where c: "write_try e image_file output_path (JDict kvs) = Some c"
      and out: "fs st' output_path = Some c"
    using write_image_metadata_True [of e image_file output_path "JDict kvs" st st'] by auto
  from write_try_Some [OF c] show "(\<exists>info info'. IPTCInfo e (getvalue image_file) = Some info
      \<and> fs st' output_path = Some (Iptc_jpeg (getvalue image_file) info')
      \<and> (\<forall>field. map_of info' field =
           (if field = py ''caption/abstract'' \<and> truthy (dict_get kvs (py ''caption''))
              then Some (IText (str_of (dict_get kvs (py ''caption''))))
            else if field = py ''keywords'' \<and> truthy (dict_get kvs (py ''keywords''))
                      \<and> is_list (dict_get kvs (py ''keywords''))
              then Some (IList (strs_of (dict_get kvs (py ''keywords''))))
            else if field = py ''by-line'' \<and> truthy (dict_get kvs (py ''byline''))
              then Some (IText (str_of (dict_get kvs (py ''byline''))))
            else if field = py ''credit'' \<and> truthy (dict_get kvs (py ''credit''))
              then Some (IText (str_of (dict_get kvs (py ''credit''))))
            else if field = py ''source'' \<and> truthy (dict_get kvs (py ''source''))
              then Some (IText (str_of (dict_get kvs (py ''source''))))
            else map_of info field)))
   \<or> (\<exists>im. Image_open e (getvalue image_file) = Some im
      \<and> fs st' output_path =
          Some (Png im (concat (map
            (\<lambda>key. if truthy (dict_get kvs key) then [(key, text_of (dict_get kvs key))] else [])
            [py ''caption'', py ''keywords'', py ''byline'', py ''credit'', py ''source'']))))"
  proof (elim disjE exE conjE)
    fix i i'
    assume "IPTCInfo e (getvalue image_file) = Some i" "jpeg_fields (JDict kvs) i = Some i'"
      "c = Iptc_jpeg (getvalue image_file) i'"
    then show ?thesis
      using out jpeg_fields_Some [of kvs i i'] by (intro disjI1 exI [of _ i] exI [of _ i']) simp
  next
    fix im chunks
    assume "Image_open e (getvalue image_file) = Some im" "png_fields (JDict kvs) = Some chunks"
      "c = Png im chunks"
    then show ?thesis
      using out png_fields_Some [of kvs chunks] by (intro disjI2 exI [of _ im]) simp
  qed
qed


lemma write_try_ext:
  "lower (snd (splitext (name f))) = py ''.jpg'' \<or> lower (snd (splitext (name f))) = py ''.jpeg''
     \<Longrightarrow> write_try e f out m = jpeg_branch e (getvalue f) out m"
  "lower (snd (splitext (name f))) = py ''.png''
     \<Longrightarrow> write_try e f out m = png_branch e (getvalue f) out m"
  by (auto simp: write_try_def Let_def)

lemma png_branch_Some:
  "png_branch e d out m = Some c \<Longrightarrow>
   \<exists>im chunks. Image_open e d = Some im \<and> png_fields m = Some chunks \<and> c = Png im chunks"
  by (auto simp: png_branch_def split: option.splits if_splits)

lemma jpeg_branch_Some:
  "jpeg_branch e d out m = Some c \<Longrightarrow>
   \<exists>i i'. IPTCInfo e d = Some i \<and> jpeg_fields m i = Some i' \<and> c = Iptc_jpeg d i'"
  by (auto simp: jpeg_branch_def split: option.splits if_splits)

lemma add_keywords_None:
  assumes "truthy (dict_get kvs (py ''keywords''))"
    and "\<not> is_list (dict_get kvs (py ''keywords''))"
    and "\<not> is_str (dict_get kvs (py ''keywords''))"
  shows "add_keywords (JDict kvs) p = None"
  using assms
  by (cases "dict_get kvs (py ''keywords'')")
     (simp_all add: add_keywords_def py_get_def recode_def)

lemma png_fields_None:
  assumes "truthy (dict_get kvs (py ''keywords''))"
    and "\<not> is_list (dict_get kvs (py ''keywords''))"
    and "\<not> is_str (dict_get kvs (py ''keywords''))"
  shows "png_fields (JDict kvs) = None"
  by (cases "add_text (JDict kvs) (py ''caption'') []")
     (simp_all add: png_fields_def add_keywords_None [OF assms])

lemma map_of_chunks_keywords:
  "map_of (concat (map (\<lambda>key. if truthy (dict_get kvs key) then [(key, text_of (dict_get kvs key))] else [])
      [py ''caption'', py ''keywords'', py ''byline'', py ''credit'', py ''source''])) (py ''keywords'')
   = (if truthy (dict_get kvs (py ''keywords'')) then Some (text_of (dict_get kvs (py ''keywords''))) else None)"
  by simp


text \<open>
  C6, as amended. With a truthy keywords value, the PNG branch writes the chunk
  \<open>keywords\<close> when the value is a list of strings (joined by a comma and a space) and when
  it is a string (as it is); with any other truthy value (a number, \<open>true\<close>, an object)
  the PNG branch fails: it returns \<open>False\<close> and writes nothing. The JPEG branch sets the
  field \<open>keywords\<close> only when the value is a list and otherwise leaves it as the input
  file had it, so the two branches differ on a string.
\<close>

theorem keywords_png_and_jpeg:
  "(write_image_metadata e image_file output_path (JDict kvs) st = Returned (True, st')
      \<and> output_path \<noteq> path_join (temp_dir st) (name image_file)
      \<and> lower (snd (splitext (name image_file))) = py ''.png''
      \<and> truthy (dict_get kvs (py ''keywords''))
      \<and> (is_list (dict_get kvs (py ''keywords'')) \<or> is_str (dict_get kvs (py ''keywords'')))
    \<longrightarrow> (\<exists>im chunks. fs st' output_path = Some (Png im chunks)
          \<and> map_of chunks (py ''keywords'') =
              Some (if is_list (dict_get kvs (py ''keywords''))
                    then join_str (py '', '') (strs_of (dict_get kvs (py ''keywords'')))
                    else str_of (dict_get kvs (py ''keywords'')))))
   \<and> (lower (snd (splitext (name image_file))) = py ''.png''
      \<and> truthy (dict_get kvs (py ''keywords''))
      \<and> \<not> is_list (dict_get kvs (py ''keywords'')) \<and> \<not> is_str (dict_get kvs (py ''keywords''))
    \<longrightarrow> write_image_metadata e image_file output_path (JDict kvs) st =
          (if open_wb e (path_join (temp_dir st) (name image_file))
           then Returned (False, st\<lparr>fs := (fs st)(path_join (temp_dir st) (name image_file) := None)\<rparr>)
           else Raised st))
   \<and> (write_image_metadata e image_file output_path (JDict kvs) st = Returned (True, st')
      \<and> output_path \<noteq> path_join (temp_dir st) (name image_file)
      \<and> (lower (snd (splitext (name image_file))) = py ''.jpg''
          \<or> lower (snd (splitext (name image_file))) = py ''.jpeg'')
    \<longrightarrow> (\<exists>info info'. IPTCInfo e (getvalue image_file) = Some info
          \<and> fs st' output_path = Some (Iptc_jpeg (getvalue image_file) info')
          \<and> map_of info' (py ''keywords'') =
              (if truthy (dict_get kvs (py ''keywords'')) \<and> is_list (dict_get kvs (py ''keywords''))
               then Some (IList (strs_of (dict_get kvs (py ''keywords''))))
               else map_of info (py ''keywords''))))"
proof (intro conjI impI)
  assume a: "write_image_metadata e image_file output_path (JDict kvs) st = Returned (True, st')
      \<and> output_path \<noteq> path_join (temp_dir st) (name image_file)
      \<and> lower (snd (splitext (name image_file))) = py ''.png''
      \<and> truthy (dict_get kvs (py ''keywords''))
      \<and> (is_list (dict_get kvs (py ''keywords'')) \<or> is_str (dict_get kvs (py ''keywords'')))"
  then obtain c where c: "write_try e image_file output_path (JDict kvs) = Some c"
      and out: "fs st' output_path = Some c"
    using write_image_metadata_True [of e image_file output_path "JDict kvs" st st'] by auto
  from a c have "png_branch e (getvalue image_file) output_path (JDict kvs) = Some c"
    by (simp add: write_try_ext)
  then obtain im chunks where ch: "png_fields (JDict kvs) = Some chunks" "c = Png im chunks"
    using png_branch_Some by blast
  have "map_of chunks (py ''keywords'') = Some (text_of (dict_get kvs (py ''keywords'')))"
    using a map_of_chunks_keywords [of kvs] unfolding png_fields_Some [OF ch(1)] by simp
  moreover have "text_of (dict_get kvs (py ''keywords'')) =
      (if is_list (dict_get kvs (py ''keywords''))
       then join_str (py '', '') (strs_of (dict_get kvs (py ''keywords'')))
       else str_of (dict_get kvs (py ''keywords'')))"
    by (simp add: text_of_def)
  ultimately show "\<exists>im chunks. fs st' output_path = Some (Png im chunks)
          \<and> map_of chunks (py ''keywords'') =
              Some (if is_list (dict_get kvs (py ''keywords''))
                    then join_str (py '', '') (strs_of (dict_get kvs (py ''keywords'')))
                    else str_of (dict_get kvs (py ''keywords'')))"
    using out ch(2) by simp
next
  assume a: "lower (snd (splitext (name image_file))) = py ''.png''
      \<and> truthy (dict_get kvs (py ''keywords''))
      \<and> \<not> is_list (dict_get kvs (py ''keywords'')) \<and> \<not> is_str (dict_get kvs (py ''keywords''))"
  then have "png_fields (JDict kvs) = None"
    by (simp add: png_fields_None)
  then have "write_try e image_file output_path (JDict kvs) = None"
    using a by (simp add: write_try_ext png_branch_def split: option.splits)
  then show "write_image_metadata e image_file output_path (JDict kvs) st =
          (if open_wb e (path_join (temp_dir st) (name image_file))
           then Returned (False, st\<lparr>fs := (fs st)(path_join (temp_dir st) (name image_file) := None)\<rparr>)
           else Raised st)"
    by (simp add: write_image_metadata_def with_scratch_eq)
next
  assume a: "write_image_metadata e image_file output_path (JDict kvs) st = Returned (True, st')
      \<and> output_path \<noteq> path_join (temp_dir st) (name image_file)
      \<and> (lower (snd (splitext (name image_file))) = py ''.jpg''
          \<or> lower (snd (splitext (name image_file))) = py ''.jpeg'')"
  then obtain c where c: "write_try e image_file output_path (JDict kvs) = Some c"
      and out: "fs st' output_path = Some c"
    using write_image_metadata_True [of e image_file output_path "JDict kvs" st st'] by auto
  from a c have "jpeg_branch e (getvalue image_file) output_path (JDict kvs) = Some c"
    using write_try_ext(1) [of image_file e output_path "JDict kvs"] by auto
  then obtain i i' where i: "IPTCInfo e (getvalue image_file) = Some i"
      "jpeg_fields (JDict kvs) i = Some i'" "c = Iptc_jpeg (getvalue image_file) i'"
    using jpeg_branch_Some by blast
  have "map_of i' (py ''keywords'') =
      (if truthy (dict_get kvs (py ''keywords'')) \<and> is_list (dict_get kvs (py ''keywords''))
       then Some (IList (strs_of (dict_get kvs (py ''keywords''))))
       else map_of i (py ''keywords''))"
    by (simp add: jpeg_fields_Some [OF i(2)])
  with i out show "\<exists>info info'. IPTCInfo e (getvalue image_file) = Some info
          \<and> fs st' output_path = Some (Iptc_jpeg (getvalue image_file) info')
          \<and> map_of info' (py ''keywords'') =
              (if truthy (dict_get kvs (py ''keywords'')) \<and> is_list (dict_get kvs (py ''keywords''))
               then Some (IList (strs_of (dict_get kvs (py ''keywords''))))
               else map_of info (py ''keywords''))"
    by simp
qed


lemma write_try_echo:
  "d \<noteq> [] \<Longrightarrow> write_try echo_env (upload_with ''c.PNG'' d) out m =
     map_option (Png (pixel_image (py d))) (png_fields m)"
  "write_try echo_env (upload_with ''a.jpg'' d) out m = map_option (Iptc_jpeg (py d)) (jpeg_fields m [])"
  by (simp_all add: write_try_ext ext_examples png_branch_def jpeg_branch_def echo_env_def
      env_with_def pixel_image_def split: option.splits)

lemma join_example: "py ''golf'' @ py '', '' @ py ''joy'' = py ''golf, joy''"
  by (simp add: py_def)

lemma fields_examples:
  "png_fields record_full =
     Some [(py ''caption'', py ''tee shot''), (py ''keywords'', py ''golf, joy'')]"
  "jpeg_fields record_full [] =
     Some [(py ''caption/abstract'', IText (py ''tee shot'')),
           (py ''keywords'', IList [py ''golf'', py ''joy''])]"
  "png_fields record_empty_caption = Some []"
  "png_fields record_scalar_keywords = Some [(py ''keywords'', py ''golf'')]"
  "jpeg_fields record_scalar_keywords [] = Some []"
  "png_fields record_number_keywords = None"
  "jpeg_fields record_number_keywords [] = Some []"
  by (simp_all add: record_full_def record_empty_caption_def record_scalar_keywords_def
      record_number_keywords_def png_fields_def jpeg_fields_def add_text_def add_keywords_def
      set_text_def set_keywords_def py_get_def dict_get_def recode_def join_example)


lemma write_echo_png:
  "write_image_metadata echo_env (upload_with ''c.PNG'' ''ok'') (py ''/tmp/t/tagged_images/c.PNG'') m session0 =
     Returned (case png_fields m of
        None \<Rightarrow> (False, session0\<lparr>fs := (fs session0)(py ''/tmp/t/c.PNG'' := None)\<rparr>)
      | Some chunks \<Rightarrow>
          (True, session0\<lparr>fs := (fs session0)
             (py ''/tmp/t/tagged_images/c.PNG'' \<mapsto> Png (pixel_image (py ''ok'')) chunks,
              py ''/tmp/t/c.PNG'' := None)\<rparr>))"
  by (cases "png_fields m")
     (simp_all add: write_image_metadata_def with_scratch_eq path_examples open_wb_echo write_try_echo)

lemma write_echo_jpeg:
  "write_image_metadata echo_env (upload_with ''a.jpg'' ''ok'') (py ''/tmp/t/tagged_images/a.jpg'') m session0 =
     Returned (case jpeg_fields m [] of
        None \<Rightarrow> (False, session0\<lparr>fs := (fs session0)(py ''/tmp/t/a.jpg'' := None)\<rparr>)
      | Some info \<Rightarrow>
          (True, session0\<lparr>fs := (fs session0)
             (py ''/tmp/t/tagged_images/a.jpg'' \<mapsto> Iptc_jpeg (py ''ok'') info,
              py ''/tmp/t/a.jpg'' := None)\<rparr>))"
  by (cases "jpeg_fields m []")
     (simp_all add: write_image_metadata_def with_scratch_eq path_examples open_wb_echo write_try_echo)

theorem written_fields_counterexample:
  "map_of [(py ''caption'', JStr [])] (py ''caption'') = Some (JStr [])
   \<and> write_image_metadata echo_env (upload_with ''c.PNG'' ''ok'') (py ''/tmp/t/tagged_images/c.PNG'')
        (JDict [(py ''caption'', JStr [])]) session0 =
      Returned (True, session0\<lparr>fs := (fs session0)
        (py ''/tmp/t/tagged_images/c.PNG'' \<mapsto> Png (pixel_image (py ''ok'')) [],
         py ''/tmp/t/c.PNG'' := None)\<rparr>)
   \<and> map_of [(py ''keywords'', JStr (py ''golf''))] (py ''keywords'') = Some (JStr (py ''golf''))
   \<and> write_image_metadata echo_env (upload_with ''a.jpg'' ''ok'') (py ''/tmp/t/tagged_images/a.jpg'')
        (JDict [(py ''keywords'', JStr (py ''golf''))]) session0 =
      Returned (True, session0\<lparr>fs := (fs session0)
        (py ''/tmp/t/tagged_images/a.jpg'' \<mapsto> Iptc_jpeg (py ''ok'') [],
         py ''/tmp/t/a.jpg'' := None)\<rparr>)"
  using fields_examples(3,5)
  by (simp add: write_echo_png write_echo_jpeg record_empty_caption_def record_scalar_keywords_def)

theorem written_fields_witness:
  "write_image_metadata echo_env (upload_with ''c.PNG'' ''ok'') (py ''/tmp/t/tagged_images/c.PNG'')
       record_full session0 =
     Returned (True, session0\<lparr>fs := (fs session0)
        (py ''/tmp/t/tagged_images/c.PNG'' \<mapsto> Png (pixel_image (py ''ok''))
           [(py ''caption'', py ''tee shot''), (py ''keywords'', py ''golf, joy'')],
         py ''/tmp/t/c.PNG'' := None)\<rparr>)
   \<and> py ''/tmp/t/tagged_images/c.PNG'' \<noteq> path_join (temp_dir session0) (name (upload_with ''c.PNG'' ''ok''))
   \<and> (\<exists>im. Image_open echo_env (getvalue (upload_with ''c.PNG'' ''ok'')) = Some im
        \<and> fs (session0\<lparr>fs := (fs session0)
               (py ''/tmp/t/tagged_images/c.PNG'' \<mapsto> Png (pixel_image (py ''ok''))
                  [(py ''caption'', py ''tee shot''), (py ''keywords'', py ''golf, joy'')],
                py ''/tmp/t/c.PNG'' := None)\<rparr>) (py ''/tmp/t/tagged_images/c.PNG'')
          = Some (Png im [(py ''caption'', py ''tee shot''), (py ''keywords'', py ''golf, joy'')]))"
  using written_fields [of echo_env "upload_with ''c.PNG'' ''ok''" "py ''/tmp/t/tagged_images/c.PNG''"
      "[(py ''caption'', JStr (py ''tee shot'')),
        (py ''keywords'', JList [JStr (py ''golf''), JStr (py ''joy'')]),
        (py ''credit'', JStr [])]" session0
      "session0\<lparr>fs := (fs session0)
        (py ''/tmp/t/tagged_images/c.PNG'' \<mapsto> Png (pixel_image (py ''ok''))
           [(py ''caption'', py ''tee shot''), (py ''keywords'', py ''golf, joy'')],
         py ''/tmp/t/c.PNG'' := None)\<rparr>"]
    write_echo_png [of record_full] fields_examples(1)
  by (simp add: path_examples echo_env_sel)

theorem keywords_png_and_jpeg_counterexample:
  "dict_get [(py ''keywords'', JInt 7)] (py ''keywords'') = JInt 7
   \<and> truthy (JInt 7) \<and> \<not> is_list (JInt 7)
   \<and> lower (snd (splitext (name (upload_with ''c.PNG'' ''ok'')))) = py ''.png''
   \<and> write_image_metadata echo_env (upload_with ''c.PNG'' ''ok'') (py ''/tmp/t/tagged_images/c.PNG'')
        (JDict [(py ''keywords'', JInt 7)]) session0 =
      Returned (False, session0\<lparr>fs := (fs session0)(py ''/tmp/t/c.PNG'' := None)\<rparr>)"
  using fields_examples(6)
  by (simp add: write_echo_png record_number_keywords_def dict_get_def ext_examples)

theorem keywords_png_and_jpeg_witness:
  "lower (snd (splitext (name (upload_with ''c.PNG'' ''ok'')))) = py ''.png''
   \<and> py ''/tmp/t/tagged_images/c.PNG'' \<noteq> path_join (temp_dir session0) (name (upload_with ''c.PNG'' ''ok''))
   \<and> dict_get [(py ''keywords'', JStr (py ''golf''))] (py ''keywords'') = JStr (py ''golf'')
   \<and> write_image_metadata echo_env (upload_with ''c.PNG'' ''ok'') (py ''/tmp/t/tagged_images/c.PNG'')
       record_scalar_keywords session0 =
     Returned (True, session0\<lparr>fs := (fs session0)
        (py ''/tmp/t/tagged_images/c.PNG'' \<mapsto> Png (pixel_image (py ''ok'')) [(py ''keywords'', py ''golf'')],
         py ''/tmp/t/c.PNG'' := None)\<rparr>)
   \<and> (\<exists>im chunks.
         fs (session0\<lparr>fs := (fs session0)
              (py ''/tmp/t/tagged_images/c.PNG'' \<mapsto> Png (pixel_image (py ''ok'')) [(py ''keywords'', py ''golf'')],
               py ''/tmp/t/c.PNG'' := None)\<rparr>) (py ''/tmp/t/tagged_images/c.PNG'')
          = Some (Png im chunks)
        \<and> map_of chunks (py ''keywords'') = Some (py ''golf''))
   \<and> dict_get [(py ''keywords'', JInt 7)] (py ''keywords'') = JInt 7
   \<and> open_wb echo_env (path_join (temp_dir session0) (name (upload_with ''c.PNG'' ''ok'')))
   \<and> write_image_metadata echo_env (upload_with ''c.PNG'' ''ok'') (py ''/tmp/t/tagged_images/c.PNG'')
       record_number_keywords session0 =
     Returned (False, session0\<lparr>fs := (fs session0)(py ''/tmp/t/c.PNG'' := None)\<rparr>)
   \<and> lower (snd (splitext (name (upload_with ''a.jpg'' ''ok'')))) = py ''.jpg''
   \<and> py ''/tmp/t/tagged_images/a.jpg'' \<noteq> path_join (temp_dir session0) (name (upload_with ''a.jpg'' ''ok''))
   \<and> write_image_metadata echo_env (upload_with ''a.jpg'' ''ok'') (py ''/tmp/t/tagged_images/a.jpg'')
       record_scalar_keywords session0 =
     Returned (True, session0\<lparr>fs := (fs session0)
        (py ''/tmp/t/tagged_images/a.jpg'' \<mapsto> Iptc_jpeg (py ''ok'') [],
         py ''/tmp/t/a.jpg'' := None)\<rparr>)
   \<and> (\<exists>info info'. IPTCInfo echo_env (getvalue (upload_with ''a.jpg'' ''ok'')) = Some info
        \<and> fs (session0\<lparr>fs := (fs session0)
              (py ''/tmp/t/tagged_images/a.jpg'' \<mapsto> Iptc_jpeg (py ''ok'') [],
               py ''/tmp/t/a.jpg'' := None)\<rparr>) (py ''/tmp/t/tagged_images/a.jpg'')
          = Some (Iptc_jpeg (getvalue (upload_with ''a.jpg'' ''ok'')) info')
        \<and> map_of info' (py ''keywords'') = map_of info (py ''keywords''))"
  using keywords_png_and_jpeg [of echo_env "upload_with ''c.PNG'' ''ok''" "py ''/tmp/t/tagged_images/c.PNG''"
      "[(py ''keywords'', JStr (py ''golf''))]" session0
      "session0\<lparr>fs := (fs session0)
        (py ''/tmp/t/tagged_images/c.PNG'' \<mapsto> Png (pixel_image (py ''ok'')) [(py ''keywords'', py ''golf'')],
         py ''/tmp/t/c.PNG'' := None)\<rparr>"]
    keywords_png_and_jpeg [of echo_env "upload_with ''c.PNG'' ''ok''" "py ''/tmp/t/tagged_images/c.PNG''"
      "[(py ''keywords'', JInt 7)]" session0]
    keywords_png_and_jpeg [of echo_env "upload_with ''a.jpg'' ''ok''" "py ''/tmp/t/tagged_images/a.jpg''"
      "[(py ''keywords'', JStr (py ''golf''))]" session0
      "session0\<lparr>fs := (fs session0)
        (py ''/tmp/t/tagged_images/a.jpg'' \<mapsto> Iptc_jpeg (py ''ok'') [],
         py ''/tmp/t/a.jpg'' := None)\<rparr>"]
    write_echo_png [of record_scalar_keywords] write_echo_png [of record_number_keywords]
    write_echo_jpeg [of record_scalar_keywords]
    fields_examples(4,5,6)
  by (simp add: path_examples ext_examples dict_get_def open_wb_echo
      record_scalar_keywords_def record_number_keywords_def)


section \<open>RAW files\<close>

lemma lower_append: "lower (a @ b) = lower a @ lower b"
  by (simp add: lower_def)

lemma splitext_cr2:
  assumes "c = 99 \<or> c = 67" and "r = 114 \<or> r = 82"
    and "47 \<notin> set stem" and "filter (\<lambda>x. x \<noteq> 46) stem \<noteq> []"
  shows "splitext (stem @ [46, c, r, 50]) = (stem, [46, c, r, 50])"
    and "endswith (lower (stem @ [46, c, r, 50])) (py ''.cr2'')"
proof -
  have dot: "rfind (stem @ [46, c, r, 50]) 46 = int (length stem)"
    using assms(1,2) rfind_last [of 46 "[c, r, 50]" stem] by auto
  have sep: "rfind (stem @ [46, c, r, 50]) 47 = - 1"
    using assms(1,2,3) by (intro rfind_absent) auto
  show "splitext (stem @ [46, c, r, 50]) = (stem, [46, c, r, 50])"
    using assms(4) by (simp add: splitext_def dot sep)
  have "lower [46, c, r, 50] = py ''.cr2''"
    using assms(1,2) by (auto simp: lower_def lower_char_def py_def)
  then show "endswith (lower (stem @ [46, c, r, 50])) (py ''.cr2'')"
    by (simp add: lower_append endswith_def)
qed


text \<open>
  C7. A file whose lower-cased name ends in \<open>.cr2\<close> is routed by the stripping batch to
  \<open>process_raw_cr2\<close>, with the output name made of the name without its extension
  (\<open>splitext\<close>) followed by \<open>.jpg\<close>; for a base name that is a stem with a character
  other than a dot, followed by \<open>.cr2\<close> in any letter case, that is the stem followed by
  \<open>.jpg\<close>. Without the RAW library \<open>process_raw_cr2\<close> returns \<open>False\<close> and changes
  nothing, and the batch stores no path for the file. With the library, when decoding
  with the default post-processing and saving succeed, it returns \<open>True\<close>, the output
  file is the decoded image saved as a JPEG of quality 95, and the batch stores its path;
  the one way out of this is that the scratch copy cannot be made, and then the exception
  leaves the function and the batch.
\<close>

theorem raw_files_to_jpeg:
  "(endswith (lower (name file)) (py ''.cr2'') \<longrightarrow>
      strip_one e output_dir file st =
        (path_join output_dir (fst (splitext (name file)) @ py ''.jpg''),
         process_raw_cr2 e file (path_join output_dir (fst (splitext (name file)) @ py ''.jpg'')) st))
   \<and> ((c = 99 \<or> c = 67) \<and> (r = 114 \<or> r = 82) \<and> 47 \<notin> set stem
        \<and> filter (\<lambda>x. x \<noteq> 46) stem \<noteq> [] \<and> name file = stem @ [46, c, r, 50] \<longrightarrow>
      endswith (lower (name file)) (py ''.cr2'')
      \<and> fst (splitext (name file)) @ py ''.jpg'' = stem @ py ''.jpg'')
   \<and> (\<not> RAW_SUCCESS e \<longrightarrow> process_raw_cr2 e file output_path st = Returned (False, st))
   \<and> (RAW_SUCCESS e \<and> rawpy_postprocess e (getvalue file) = Some img
        \<and> save e (Jpeg img 95) output_path
        \<and> output_path \<noteq> path_join (temp_dir st) (name file) \<longrightarrow>
      process_raw_cr2 e file output_path st =
        (if open_wb e (path_join (temp_dir st) (name file))
         then Returned (True, st\<lparr>fs := (fs st)(output_path \<mapsto> Jpeg img 95,
                                    path_join (temp_dir st) (name file) := None)\<rparr>)
         else Raised st)
      \<and> ((fs st)(output_path \<mapsto> Jpeg img 95, path_join (temp_dir st) (name file) := None)) output_path
          = Some (Jpeg img 95))
   \<and> (endswith (lower (name file)) (py ''.cr2'') \<and> \<not> RAW_SUCCESS e \<longrightarrow>
      process_stripping e [file] st = Returned (st\<lparr>processed_files := []\<rparr>))
   \<and> (endswith (lower (name file)) (py ''.cr2'') \<and> RAW_SUCCESS e
        \<and> rawpy_postprocess e (getvalue file) = Some img
        \<and> save e (Jpeg img 95)
             (path_join (path_join (temp_dir st) (py ''stripped_images''))
                (fst (splitext (name file)) @ py ''.jpg'')) \<longrightarrow>
      process_stripping e [file] st =
        (if open_wb e (path_join (temp_dir st) (name file))
         then Returned (st\<lparr>fs := (fs st)
                (path_join (path_join (temp_dir st) (py ''stripped_images''))
                   (fst (splitext (name file)) @ py ''.jpg'') \<mapsto> Jpeg img 95,
                 path_join (temp_dir st) (name file) := None),
              processed_files :=
                [path_join (path_join (temp_dir st) (py ''stripped_images''))
                   (fst (splitext (name file)) @ py ''.jpg'')]\<rparr>)
         else Raised st))"
proof (intro conjI impI)
  assume "endswith (lower (name file)) (py ''.cr2'')"
  then show "strip_one e output_dir file st =
        (path_join output_dir (fst (splitext (name file)) @ py ''.jpg''),
         process_raw_cr2 e file (path_join output_dir (fst (splitext (name file)) @ py ''.jpg'')) st)"
    by (simp add: strip_one_def Let_def)
next
  assume a: "(c = 99 \<or> c = 67) \<and> (r = 114 \<or> r = 82) \<and> 47 \<notin> set stem
        \<and> filter (\<lambda>x. x \<noteq> 46) stem \<noteq> [] \<and> name file = stem @ [46, c, r, 50]"
  then show "endswith (lower (name file)) (py ''.cr2'')"
    using splitext_cr2(2) [of c r stem] by simp
  from a show "fst (splitext (name file)) @ py ''.jpg'' = stem @ py ''.jpg''"
    using splitext_cr2(1) [of c r stem] by simp
next
  assume "\<not> RAW_SUCCESS e"
  then show "process_raw_cr2 e file output_path st = Returned (False, st)"
    by (simp add: process_raw_cr2_def)
next
  assume a: "RAW_SUCCESS e \<and> rawpy_postprocess e (getvalue file) = Some img
        \<and> save e (Jpeg img 95) output_path
        \<and> output_path \<noteq> path_join (temp_dir st) (name file)"
  then show "process_raw_cr2 e file output_path st =
        (if open_wb e (path_join (temp_dir st) (name file))
         then Returned (True, st\<lparr>fs := (fs st)(output_path \<mapsto> Jpeg img 95,
                                    path_join (temp_dir st) (name file) := None)\<rparr>)
         else Raised st)"
    by (simp add: process_raw_cr2_def with_scratch_eq)
  from a show "((fs st)(output_path \<mapsto> Jpeg img 95, path_join (temp_dir st) (name file) := None)) output_path
          = Some (Jpeg img 95)"
    by simp
next
  assume "endswith (lower (name file)) (py ''.cr2'') \<and> \<not> RAW_SUCCESS e"
  then show "process_stripping e [file] st = Returned (st\<lparr>processed_files := []\<rparr>)"
    by (simp add: process_stripping_def strip_one_def Let_def process_raw_cr2_def)
next
  assume "endswith (lower (name file)) (py ''.cr2'') \<and> RAW_SUCCESS e
        \<and> rawpy_postprocess e (getvalue file) = Some img
        \<and> save e (Jpeg img 95)
             (path_join (path_join (temp_dir st) (py ''stripped_images''))
                (fst (splitext (name file)) @ py ''.jpg''))"
  then show "process_stripping e [file] st =
        (if open_wb e (path_join (temp_dir st) (name file))
         then Returned (st\<lparr>fs := (fs st)
                (path_join (path_join (temp_dir st) (py ''stripped_images''))
                   (fst (splitext (name file)) @ py ''.jpg'') \<mapsto> Jpeg img 95,
                 path_join (temp_dir st) (name file) := None),
              processed_files :=
                [path_join (path_join (temp_dir st) (py ''stripped_images''))
                   (fst (splitext (name file)) @ py ''.jpg'')]\<rparr>)
         else Raised st)"
    by (simp add: process_stripping_def strip_one_def Let_def process_raw_cr2_def with_scratch_eq)
qed

lemma raw_examples:
  "name (upload_with ''C.CR2'' ''y'') = py ''C'' @ [46, 67, 82, 50]"
  "endswith (lower (name (upload_with ''C.CR2'' ''y''))) (py ''.cr2'')"
  "fst (splitext (name (upload_with ''C.CR2'' ''y''))) @ py ''.jpg'' = py ''C.jpg''"
  "rawpy_postprocess echo_env (py ''y'') = Some (pixel_image (py ''y''))"
  "\<not> RAW_SUCCESS (echo_env\<lparr>RAW_SUCCESS := False\<rparr>)"
  "path_join (py ''/tmp/t'') (py ''C'' @ [46, 67, 82, 50]) = py ''/tmp/t/C.CR2''"
  by (simp_all add: upload_with_def py_def endswith_def lower_def lower_char_def splitext_def
      rfind_def echo_env_def env_with_def pixel_image_def path_join_def startswith_def)

theorem raw_files_to_jpeg_witness:
  "endswith (lower (name (upload_with ''C.CR2'' ''y''))) (py ''.cr2'')
   \<and> name (upload_with ''C.CR2'' ''y'') = py ''C'' @ [46, 67, 82, 50]
   \<and> strip_one echo_env (py ''/tmp/t/stripped_images'') (upload_with ''C.CR2'' ''y'') session0 =
        (py ''/tmp/t/stripped_images/C.jpg'',
         process_raw_cr2 echo_env (upload_with ''C.CR2'' ''y'') (py ''/tmp/t/stripped_images/C.jpg'') session0)
   \<and> \<not> RAW_SUCCESS (echo_env\<lparr>RAW_SUCCESS := False\<rparr>)
   \<and> process_raw_cr2 (echo_env\<lparr>RAW_SUCCESS := False\<rparr>) (upload_with ''C.CR2'' ''y'')
        (py ''/tmp/t/stripped_images/C.jpg'') session0 = Returned (False, session0)
   \<and> process_stripping (echo_env\<lparr>RAW_SUCCESS := False\<rparr>) [upload_with ''C.CR2'' ''y''] session0 =
        Returned (session0\<lparr>processed_files := []\<rparr>)
   \<and> RAW_SUCCESS echo_env
   \<and> rawpy_postprocess echo_env (getvalue (upload_with ''C.CR2'' ''y'')) = Some (pixel_image (py ''y''))
   \<and> save echo_env (Jpeg (pixel_image (py ''y'')) 95) (py ''/tmp/t/stripped_images/C.jpg'')
   \<and> py ''/tmp/t/stripped_images/C.jpg'' \<noteq> path_join (temp_dir session0) (name (upload_with ''C.CR2'' ''y''))
   \<and> open_wb echo_env (path_join (temp_dir session0) (name (upload_with ''C.CR2'' ''y'')))
   \<and> process_raw_cr2 echo_env (upload_with ''C.CR2'' ''y'') (py ''/tmp/t/stripped_images/C.jpg'') session0 =
        Returned (True, session0\<lparr>fs := (fs session0)
          (py ''/tmp/t/stripped_images/C.jpg'' \<mapsto> Jpeg (pixel_image (py ''y'')) 95,
           py ''/tmp/t/C.CR2'' := None)\<rparr>)
   \<and> process_stripping echo_env [upload_with ''C.CR2'' ''y''] session0 =
        Returned (session0\<lparr>fs := (fs session0)
            (py ''/tmp/t/stripped_images/C.jpg'' \<mapsto> Jpeg (pixel_image (py ''y'')) 95,
             py ''/tmp/t/C.CR2'' := None),
          processed_files := [py ''/tmp/t/stripped_images/C.jpg'']\<rparr>)"
  using raw_files_to_jpeg [of "upload_with ''C.CR2'' ''y''" echo_env "py ''/tmp/t/stripped_images''"
      session0 67 82 "py ''C''" "py ''/tmp/t/stripped_images/C.jpg''" "pixel_image (py ''y'')"]
    raw_files_to_jpeg [of "upload_with ''C.CR2'' ''y''" "echo_env\<lparr>RAW_SUCCESS := False\<rparr>"
      "py ''/tmp/t/stripped_images''" session0 67 82 "py ''C''" "py ''/tmp/t/stripped_images/C.jpg''"
      "pixel_image (py ''y'')"]
    raw_examples(1,2,3)
  by (simp add: raw_examples(4,5,6) echo_env_sel(4,5) path_examples open_wb_echo)

section \<open>Stored paths and the archive\<close>

lemma output_is_not_scratch:
  assumes "47 \<notin> set n1" and "47 \<notin> set n2" and "47 \<notin> set sub" and "sub \<noteq> []"
  shows "path_join (path_join t sub) n1 \<noteq> path_join t n2"
proof
  assume eq: "path_join (path_join t sub) n1 = path_join t n2"
  let ?B = "if t = [] \<or> endswith t [47] then t else t @ [47]"
  have d: "path_join t sub = ?B @ sub"
    using assms(3) by (rule path_join_relative)
  have "last (?B @ sub) = last sub"
    using assms(4) by simp
  moreover have "last sub \<noteq> 47"
    using assms(3,4) last_in_set by metis
  ultimately have "\<not> endswith (?B @ sub) [47]"
    by (simp add: endswith_one)
  then have "path_join (?B @ sub) n1 = (?B @ sub) @ [47] @ n1"
    using assms(1,4) path_join_relative [of n1 "?B @ sub"] by simp
  moreover have "path_join t n2 = ?B @ n2"
    using assms(2) by (rule path_join_relative)
  ultimately have "sub @ [47] @ n1 = n2"
    using eq d by simp
  then have "47 \<in> set n2" by auto
  with assms(2) show False by simp
qed


lemma step_keeps_outputs:
  assumes names: "47 \<notin> set n1" "47 \<notin> set nf" "47 \<notin> set sub" "sub \<noteq> []"
    and acc: "\<forall>p\<in>set acc. disk p \<noteq> None \<and> (\<forall>n. 47 \<notin> set n \<longrightarrow> p \<noteq> path_join t n)"
  shows "\<forall>p\<in>set (if w \<noteq> None then acc @ [path_join (path_join t sub) n1] else acc).
           ((case w of Some c \<Rightarrow> disk(path_join (path_join t sub) n1 \<mapsto> c) | None \<Rightarrow> disk)
              (path_join t nf := None)) p \<noteq> None
           \<and> (\<forall>n. 47 \<notin> set n \<longrightarrow> p \<noteq> path_join t n)"
proof -
  have out: "\<forall>n. 47 \<notin> set n \<longrightarrow> path_join (path_join t sub) n1 \<noteq> path_join t n"
    using names output_is_not_scratch by blast
  show ?thesis
    using out acc names(2) by (cases w) auto
qed

lemma tagging_loop_outputs:
  assumes "tagging_loop e (path_join t sub) k files acc st = Returned (ps, st')"
    and "base_names files" and "temp_dir st = t" and "47 \<notin> set sub" and "sub \<noteq> []"
    and "\<forall>p\<in>set acc. fs st p \<noteq> None \<and> (\<forall>n. 47 \<notin> set n \<longrightarrow> p \<noteq> path_join t n)"
  shows "\<forall>p\<in>set ps. fs st' p \<noteq> None \<and> (\<forall>n. 47 \<notin> set n \<longrightarrow> p \<noteq> path_join t n)"
  using assms
proof (induction files arbitrary: acc st)
  case Nil
  then show ?case by simp
next
  case (Cons f files)
  from Cons.prems(2) have names: "47 \<notin> set (name f)" "base_names files"
    by (simp_all add: base_names_def)
  note same = Cons.IH [OF _ names(2) Cons.prems(3,4,5,6)]
  show ?case
  proof (cases "fst (analyze_image e f k 5)")
    case None
    with Cons.prems(1) show ?thesis
      using same by (simp add: tagging_loop_step)
  next
    case (Some m)
    show ?thesis
    proof (cases "truthy m")
      case False
      with Some Cons.prems(1) show ?thesis
        using same by (simp add: tagging_loop_step)
    next
      case True
      define w where "w = write_try e f (path_join (path_join t sub) (name f)) m"
      define st1 where "st1 = st\<lparr>fs := (case w of
            Some c \<Rightarrow> (fs st)(path_join (path_join t sub) (name f) \<mapsto> c) | None \<Rightarrow> fs st)
          (path_join t (name f) := None)\<rparr>"
      have r: "tagging_loop e (path_join t sub) k files
              (if w \<noteq> None then acc @ [path_join (path_join t sub) (name f)] else acc) st1
            = Returned (ps, st')"
        using Cons.prems(1) Some True unfolding tagging_loop_step w_def st1_def
        by (simp add: Cons.prems(3) split: if_splits)
      have t1: "temp_dir st1 = t"
        by (simp add: st1_def Cons.prems(3))
      have inv: "\<forall>p\<in>set (if w \<noteq> None then acc @ [path_join (path_join t sub) (name f)] else acc).
           fs st1 p \<noteq> None \<and> (\<forall>n. 47 \<notin> set n \<longrightarrow> p \<noteq> path_join t n)"
        using step_keeps_outputs [OF names(1) names(1) Cons.prems(4,5,6), of w]
        by (simp add: st1_def)
      show ?thesis
        using Cons.IH [OF r names(2) t1 Cons.prems(4,5) inv] .
    qed
  qed
qed

lemma set_fst_splitext: "set (fst (splitext p)) \<subseteq> set p"
  by (auto simp: splitext_def Let_def dest: in_set_takeD)

lemma no_slash_jpg: "47 \<notin> set n \<Longrightarrow> 47 \<notin> set (fst (splitext n) @ py ''.jpg'')"
  using set_fst_splitext [of n] by (auto simp: py_def)


lemma strip_one_keeps_outputs:
  assumes s: "snd (strip_one e (path_join t sub) f st) = Returned (ok, st1)"
    and t: "temp_dir st = t"
    and names: "47 \<notin> set (name f)" "47 \<notin> set sub" "sub \<noteq> []"
    and acc: "\<forall>p\<in>set acc. fs st p \<noteq> None \<and> (\<forall>n. 47 \<notin> set n \<longrightarrow> p \<noteq> path_join t n)"
  shows "temp_dir st1 = t"
    and "\<forall>p\<in>set (if ok then acc @ [fst (strip_one e (path_join t sub) f st)] else acc).
           fs st1 p \<noteq> None \<and> (\<forall>n. 47 \<notin> set n \<longrightarrow> p \<noteq> path_join t n)"
proof -
  show "temp_dir st1 = t"
    using strip_one_Returned [OF s] t by simp
  consider (plain) "\<not> endswith (lower (name f)) (py ''.cr2'')"
    | (nolib) "endswith (lower (name f)) (py ''.cr2'')" "\<not> RAW_SUCCESS e"
    | (raw) "endswith (lower (name f)) (py ''.cr2'')" "RAW_SUCCESS e"
    by blast
  then show "\<forall>p\<in>set (if ok then acc @ [fst (strip_one e (path_join t sub) f st)] else acc).
           fs st1 p \<noteq> None \<and> (\<forall>n. 47 \<notin> set n \<longrightarrow> p \<noteq> path_join t n)"
  proof cases
    case plain
    define w where "w = (case Image_open e (getvalue f) of
             None \<Rightarrow> None
           | Some img \<Rightarrow>
               (let new_img = \<lparr>im_mode = im_mode img, im_size = im_size img,
                    im_pixels = im_pixels img, im_info = []\<rparr>
                in if save e (Plain new_img) (path_join (path_join t sub) (name f))
                   then Some (Plain new_img) else None))"
    from plain have o: "fst (strip_one e (path_join t sub) f st) = path_join (path_join t sub) (name f)"
      by (simp add: strip_one_def Let_def)
    from plain s have "ok = (w \<noteq> None)"
      and "st1 = st\<lparr>fs := (case w of
            Some c \<Rightarrow> (fs st)(path_join (path_join t sub) (name f) \<mapsto> c) | None \<Rightarrow> fs st)
          (path_join t (name f) := None)\<rparr>"
      by (auto simp: strip_one_def Let_def remove_metadata_image_def with_scratch_eq w_def t
          split: if_splits)
    then show ?thesis
      using step_keeps_outputs [OF names(1) names(1) names(2,3) acc, of w] o by simp
  next
    case nolib
    with s have "ok = False" "st1 = st"
      by (simp_all add: strip_one_def Let_def process_raw_cr2_def)
    then show ?thesis using acc by simp
  next
    case raw
    define w where "w = (case rawpy_postprocess e (getvalue f) of
             None \<Rightarrow> None
           | Some img \<Rightarrow>
               if save e (Jpeg img 95)
                    (path_join (path_join t sub) (fst (splitext (name f)) @ py ''.jpg''))
               then Some (Jpeg img 95) else None)"
    from raw have o: "fst (strip_one e (path_join t sub) f st) =
        path_join (path_join t sub) (fst (splitext (name f)) @ py ''.jpg'')"
      by (simp add: strip_one_def Let_def)
    from raw s have "ok = (w \<noteq> None)"
      and "st1 = st\<lparr>fs := (case w of
            Some c \<Rightarrow> (fs st)(path_join (path_join t sub) (fst (splitext (name f)) @ py ''.jpg'') \<mapsto> c)
          | None \<Rightarrow> fs st)
          (path_join t (name f) := None)\<rparr>"
      by (auto simp: strip_one_def Let_def process_raw_cr2_def with_scratch_eq w_def t
          split: if_splits)
    then show ?thesis
      using step_keeps_outputs [OF no_slash_jpg [OF names(1)] names(1) names(2,3) acc, of w] o
      by simp
  qed
qed

lemma stripping_loop_outputs:
  assumes "stripping_loop e (path_join t sub) files acc st = Returned (ps, st')"
    and "base_names files" and "temp_dir st = t" and "47 \<notin> set sub" and "sub \<noteq> []"
    and "\<forall>p\<in>set acc. fs st p \<noteq> None \<and> (\<forall>n. 47 \<notin> set n \<longrightarrow> p \<noteq> path_join t n)"
  shows "\<forall>p\<in>set ps. fs st' p \<noteq> None \<and> (\<forall>n. 47 \<notin> set n \<longrightarrow> p \<noteq> path_join t n)"
  using assms
proof (induction files arbitrary: acc st)
  case Nil
  then show ?case by simp
next
  case (Cons f files)
  from Cons.prems(2) have names: "47 \<notin> set (name f)" "base_names files"
    by (simp_all add: base_names_def)
  from Cons.prems(1) obtain ok st1 where s: "snd (strip_one e (path_join t sub) f st) = Returned (ok, st1)"
    and r: "stripping_loop e (path_join t sub) files
        (if ok then acc @ [fst (strip_one e (path_join t sub) f st)] else acc) st1 = Returned (ps, st')"
    unfolding stripping_loop_step by (auto split: result.splits)
  note k = strip_one_keeps_outputs [OF s Cons.prems(3) names(1) Cons.prems(4,5,6)]
  show ?case
    using Cons.IH [OF r names(2) k(1) Cons.prems(4,5) k(2)] .
qed

lemma batches_keep_outputs:
  assumes "base_names files"
    and "process_tagging e files k st = Returned st1 \<or> process_stripping e files st = Returned st1"
  shows "outputs_exist st1"
    and "temp_dir st1 = temp_dir st"
    and "\<forall>p\<in>set (processed_files st1). \<forall>n. 47 \<notin> set n \<longrightarrow> p \<noteq> path_join (temp_dir st) n"
proof -
  have sub: "47 \<notin> set (py ''tagged_images'')" "py ''tagged_images'' \<noteq> []"
    "47 \<notin> set (py ''stripped_images'')" "py ''stripped_images'' \<noteq> []"
    by (simp_all add: py_def)
  have "outputs_exist st1 \<and> temp_dir st1 = temp_dir st
      \<and> (\<forall>p\<in>set (processed_files st1). \<forall>n. 47 \<notin> set n \<longrightarrow> p \<noteq> path_join (temp_dir st) n)"
    using assms(2)
  proof
    assume p: "process_tagging e files k st = Returned st1"
    then obtain ps st' where l: "tagging_loop e (path_join (temp_dir st) (py ''tagged_images'')) k files [] st
          = Returned (ps, st')" and st1: "st1 = st'\<lparr>processed_files := ps\<rparr>"
      by (auto simp: process_tagging_def Let_def split: result.splits)
    have "\<forall>p\<in>set ps. fs st' p \<noteq> None \<and> (\<forall>n. 47 \<notin> set n \<longrightarrow> p \<noteq> path_join (temp_dir st) n)"
      using tagging_loop_outputs [OF l assms(1) refl sub(1,2)] by simp
    then show ?thesis
      using tagging_loop_Returned [OF l] by (simp add: st1 outputs_exist_def list_all_iff)
  next
    assume p: "process_stripping e files st = Returned st1"
    then obtain ps st' where l: "stripping_loop e (path_join (temp_dir st) (py ''stripped_images'')) files [] st
          = Returned (ps, st')" and st1: "st1 = st'\<lparr>processed_files := ps\<rparr>"
      by (auto simp: process_stripping_def Let_def split: result.splits)
    have "\<forall>p\<in>set ps. fs st' p \<noteq> None \<and> (\<forall>n. 47 \<notin> set n \<longrightarrow> p \<noteq> path_join (temp_dir st) n)"
      using stripping_loop_outputs [OF l assms(1) refl sub(3,4)] by simp
    then show ?thesis
      using stripping_loop_Returned [OF l refl] by (simp add: st1 outputs_exist_def list_all_iff)
  qed
  then show "outputs_exist st1" and "temp_dir st1 = temp_dir st"
    and "\<forall>p\<in>set (processed_files st1). \<forall>n. 47 \<notin> set n \<longrightarrow> p \<noteq> path_join (temp_dir st) n"
    by simp_all
qed

lemma remove_files_lookup:
  "remove_files ps disk p = (if p \<in> set ps then None else disk p)"
  by (induction ps arbitrary: disk) auto

lemma clear_outputs_result:
  "processed_files (clear_outputs st) = []"
  "p \<in> set (processed_files st) \<Longrightarrow> fs (clear_outputs st) p = None"
  "outputs_exist (clear_outputs st)"
  by (auto simp: clear_outputs_def remove_files_lookup outputs_exist_def)

lemma zip_members_all:
  "list_all (\<lambda>p. disk p \<noteq> None) ps \<Longrightarrow>
   zip_members disk ps = (map (\<lambda>p. (basename p, the (disk p))) ps, True)"
  by (induction ps) auto

lemma download_section_invariant:
  assumes "outputs_exist st"
  shows "fst (download_section zip_name st)"
    and "outputs_exist (snd (download_section zip_name st))"
    and "processed_files (snd (download_section zip_name st)) = processed_files st"
    and "temp_dir (snd (download_section zip_name st)) = temp_dir st"
proof -
  let ?zp = "path_join (temp_dir st) zip_name"
  have all: "list_all (\<lambda>p. ((fs st)(?zp \<mapsto> Zip [])) p \<noteq> None) (processed_files st)"
    using assms by (auto simp: outputs_exist_def list_all_iff)
  note z = zip_members_all [OF all]
  show "fst (download_section zip_name st)"
    using assms all by (auto simp: download_section_def Let_def z outputs_exist_def list_all_iff)
  show "outputs_exist (snd (download_section zip_name st))"
    using assms all by (auto simp: download_section_def Let_def z outputs_exist_def list_all_iff)
  show "processed_files (snd (download_section zip_name st)) = processed_files st"
    by (simp add: download_section_def Let_def z)
  show "temp_dir (snd (download_section zip_name st)) = temp_dir st"
    by (simp add: download_section_def Let_def z)
qed

lemma download_section_zip:
  assumes "1 < length (processed_files st)" and "outputs_exist st"
    and "path_join (temp_dir st) zip_name \<notin> set (processed_files st)"
  shows "download_section zip_name st =
     (True, st\<lparr>fs := (fs st)(path_join (temp_dir st) zip_name \<mapsto>
        Zip (map (\<lambda>file. (basename file, the (fs st file))) (processed_files st)))\<rparr>)"
proof -
  let ?zp = "path_join (temp_dir st) zip_name"
  have all: "list_all (\<lambda>p. ((fs st)(?zp \<mapsto> Zip [])) p \<noteq> None) (processed_files st)"
    using assms(2) by (auto simp: outputs_exist_def list_all_iff)
  have same: "map (\<lambda>p. (basename p, the (((fs st)(?zp \<mapsto> Zip [])) p))) (processed_files st)
      = map (\<lambda>file. (basename file, the (fs st file))) (processed_files st)"
    using assms(3) by (intro map_cong) auto
  have ne: "processed_files st \<noteq> []"
    using assms(1) by auto
  have z: "zip_members ((fs st)(?zp \<mapsto> Zip [])) (processed_files st) =
      (map (\<lambda>file. (basename file, the (fs st file))) (processed_files st), True)"
    by (simp only: zip_members_all [OF all] same)
  show ?thesis
    using assms(1,2) ne
    by (auto simp: download_section_def Let_def z outputs_exist_def list_all_iff)
qed


text \<open>
  C8. The download section writes the ZIP archive exactly when the list of processed
  files has more than one entry: with at most one entry it leaves the disk as it is.
  When it writes the archive, the members are the processed files in the order of the
  list, each stored under the base name of its path with the content of the file; for
  the output of an uploaded file that base name is the output file's name. This holds in
  particular for the list a batch has just stored.
\<close>

theorem zip_archive:
  "(length (processed_files st) \<le> 1 \<longrightarrow> snd (download_section zip_name st) = st)
   \<and> (1 < length (processed_files st) \<and> outputs_exist st
        \<and> path_join (temp_dir st) zip_name \<notin> set (processed_files st) \<longrightarrow>
      download_section zip_name st =
        (True, st\<lparr>fs := (fs st)(path_join (temp_dir st) zip_name \<mapsto>
           Zip (map (\<lambda>file. (basename file, the (fs st file))) (processed_files st)))\<rparr>))
   \<and> (47 \<notin> set n \<longrightarrow> basename (path_join output_dir n) = n)
   \<and> (base_names files \<and> 47 \<notin> set zip_name
        \<and> (process_tagging e files api_key st = Returned st1
            \<or> process_stripping e files st = Returned st1)
        \<and> 1 < length (processed_files st1) \<longrightarrow>
      download_section zip_name st1 =
        (True, st1\<lparr>fs := (fs st1)(path_join (temp_dir st1) zip_name \<mapsto>
           Zip (map (\<lambda>file. (basename file, the (fs st1 file))) (processed_files st1)))\<rparr>))"
proof (intro conjI impI)
  assume "length (processed_files st) \<le> 1"
  then show "snd (download_section zip_name st) = st"
    by (simp add: download_section_def)
next
  assume "1 < length (processed_files st) \<and> outputs_exist st
        \<and> path_join (temp_dir st) zip_name \<notin> set (processed_files st)"
  then show "download_section zip_name st =
        (True, st\<lparr>fs := (fs st)(path_join (temp_dir st) zip_name \<mapsto>
           Zip (map (\<lambda>file. (basename file, the (fs st file))) (processed_files st)))\<rparr>)"
    by (simp add: download_section_zip)
next
  assume "47 \<notin> set n"
  then show "basename (path_join output_dir n) = n"
    by (rule basename_join)
next
  assume a: "base_names files \<and> 47 \<notin> set zip_name
        \<and> (process_tagging e files api_key st = Returned st1
            \<or> process_stripping e files st = Returned st1)
        \<and> 1 < length (processed_files st1)"
  then have b: "base_names files" and z: "47 \<notin> set zip_name"
    and r: "process_tagging e files api_key st = Returned st1
            \<or> process_stripping e files st = Returned st1"
    and l: "1 < length (processed_files st1)"
    by simp_all
  note k = batches_keep_outputs [OF b r]
  have "path_join (temp_dir st1) zip_name \<notin> set (processed_files st1)"
    using k(2,3) z by auto
  then show "download_section zip_name st1 =
        (True, st1\<lparr>fs := (fs st1)(path_join (temp_dir st1) zip_name \<mapsto>
           Zip (map (\<lambda>file. (basename file, the (fs st1 file))) (processed_files st1)))\<rparr>)"
    using download_section_zip [OF l k(1)] by simp
qed

lemma tagging_example:
  "process_tagging echo_env three_uploads (py ''key'') session0 =
     Returned (session0\<lparr>fs := (fs session0)
         (py ''/tmp/t/tagged_images/a.jpg'' \<mapsto>
            Iptc_jpeg (py ''ok'') [(py ''caption/abstract'', IText (py ''tee shot''))],
          py ''/tmp/t/a.jpg'' := None,
          py ''/tmp/t/tagged_images/c.PNG'' \<mapsto>
            Png (pixel_image (py ''ok'')) [(py ''caption'', py ''tee shot'')],
          py ''/tmp/t/c.PNG'' := None),
       processed_files := [py ''/tmp/t/tagged_images/a.jpg'', py ''/tmp/t/tagged_images/c.PNG'']\<rparr>)"
  by (simp add: three_uploads_def process_tagging_def Let_def write_image_metadata_def with_scratch_eq
      path_examples analyze_echo_ok analyze_echo_bad write_try_echo_ok open_wb_echo pixel_image_def)

lemma zip_examples:
  "temp_dir session2 = py ''/tmp/t''"
  "processed_files session2 = [py ''/tmp/t/tagged_images/a.jpg'', py ''/tmp/t/tagged_images/c.PNG'']"
  "fs session2 (py ''/tmp/t/tagged_images/a.jpg'') = Some (Uploaded [1])"
  "fs session2 (py ''/tmp/t/tagged_images/c.PNG'') = Some (Uploaded [2])"
  "path_join (py ''/tmp/t'') (py ''tagged_images.zip'') = py ''/tmp/t/tagged_images.zip''"
  "basename (py ''/tmp/t/tagged_images/a.jpg'') = py ''a.jpg''"
  "basename (py ''/tmp/t/tagged_images/c.PNG'') = py ''c.PNG''"
  "base_names three_uploads"
  "47 \<notin> set (py ''tagged_images.zip'')"
  by (simp_all add: session2_def path_join_def startswith_def endswith_def
      basename_def rfind_def py_def base_names_def three_uploads_def upload_with_def)

theorem zip_archive_witness:
  "length (processed_files session0) \<le> 1
   \<and> snd (download_section (py ''tagged_images.zip'') session0) = session0
   \<and> 1 < length (processed_files session2)
   \<and> outputs_exist session2
   \<and> path_join (temp_dir session2) (py ''tagged_images.zip'') \<notin> set (processed_files session2)
   \<and> download_section (py ''tagged_images.zip'') session2 =
        (True, session2\<lparr>fs := (fs session2)(py ''/tmp/t/tagged_images.zip'' \<mapsto>
           Zip [(py ''a.jpg'', Uploaded [1]), (py ''c.PNG'', Uploaded [2])])\<rparr>)
   \<and> basename (path_join (py ''/tmp/t/tagged_images'') (py ''a.jpg'')) = py ''a.jpg''
   \<and> base_names three_uploads
   \<and> 47 \<notin> set (py ''tagged_images.zip'')
   \<and> process_tagging echo_env three_uploads (py ''key'') session0 =
        Returned (session0\<lparr>fs := (fs session0)
            (py ''/tmp/t/tagged_images/a.jpg'' \<mapsto>
               Iptc_jpeg (py ''ok'') [(py ''caption/abstract'', IText (py ''tee shot''))],
             py ''/tmp/t/a.jpg'' := None,
             py ''/tmp/t/tagged_images/c.PNG'' \<mapsto>
               Png (pixel_image (py ''ok'')) [(py ''caption'', py ''tee shot'')],
             py ''/tmp/t/c.PNG'' := None),
          processed_files := [py ''/tmp/t/tagged_images/a.jpg'', py ''/tmp/t/tagged_images/c.PNG'']\<rparr>)
   \<and> fst (download_section (py ''tagged_images.zip'')
        (session0\<lparr>fs := (fs session0)
            (py ''/tmp/t/tagged_images/a.jpg'' \<mapsto>
               Iptc_jpeg (py ''ok'') [(py ''caption/abstract'', IText (py ''tee shot''))],
             py ''/tmp/t/a.jpg'' := None,
             py ''/tmp/t/tagged_images/c.PNG'' \<mapsto>
               Png (pixel_image (py ''ok'')) [(py ''caption'', py ''tee shot'')],
             py ''/tmp/t/c.PNG'' := None),
          processed_files := [py ''/tmp/t/tagged_images/a.jpg'', py ''/tmp/t/tagged_images/c.PNG'']\<rparr>))
   \<and> fs (snd (download_section (py ''tagged_images.zip'')
        (session0\<lparr>fs := (fs session0)
            (py ''/tmp/t/tagged_images/a.jpg'' \<mapsto>
               Iptc_jpeg (py ''ok'') [(py ''caption/abstract'', IText (py ''tee shot''))],
             py ''/tmp/t/a.jpg'' := None,
             py ''/tmp/t/tagged_images/c.PNG'' \<mapsto>
               Png (pixel_image (py ''ok'')) [(py ''caption'', py ''tee shot'')],
             py ''/tmp/t/c.PNG'' := None),
          processed_files := [py ''/tmp/t/tagged_images/a.jpg'', py ''/tmp/t/tagged_images/c.PNG'']\<rparr>)))
        (py ''/tmp/t/tagged_images.zip'') =
      Some (Zip [(py ''a.jpg'', Iptc_jpeg (py ''ok'') [(py ''caption/abstract'', IText (py ''tee shot''))]),
                 (py ''c.PNG'', Png (pixel_image (py ''ok'')) [(py ''caption'', py ''tee shot'')])])"
  using zip_archive [of session2 "py ''tagged_images.zip''" "py ''a.jpg''" "py ''/tmp/t/tagged_images''"
      three_uploads echo_env "py ''key''"]
    zip_archive [of session0 "py ''tagged_images.zip''" "py ''a.jpg''" "py ''/tmp/t/tagged_images''"
      three_uploads echo_env "py ''key''"
      "session0\<lparr>fs := (fs session0)
            (py ''/tmp/t/tagged_images/a.jpg'' \<mapsto>
               Iptc_jpeg (py ''ok'') [(py ''caption/abstract'', IText (py ''tee shot''))],
             py ''/tmp/t/a.jpg'' := None,
             py ''/tmp/t/tagged_images/c.PNG'' \<mapsto>
               Png (pixel_image (py ''ok'')) [(py ''caption'', py ''tee shot'')],
             py ''/tmp/t/c.PNG'' := None),
          processed_files := [py ''/tmp/t/tagged_images/a.jpg'', py ''/tmp/t/tagged_images/c.PNG'']\<rparr>"]
    tagging_example
  by (simp add: zip_examples outputs_exist_def path_examples)

section \<open>Stored paths that name no file\<close>

lemma nested_examples:
  "name nested_upload = py ''tagged_images/a.jpg''"
  "getvalue nested_upload = py ''ok''"
  "lower (snd (splitext (py ''tagged_images/a.jpg''))) = py ''.jpg''"
  "path_join (py ''/tmp/t'') (py ''tagged_images/a.jpg'') = py ''/tmp/t/tagged_images/a.jpg''"
  "path_join (py ''/tmp/t/tagged_images'') (py ''tagged_images/a.jpg'') =
     py ''/tmp/t/tagged_images/tagged_images/a.jpg''"
  "temp_dir fresh_session = py ''/tmp/t''"
  "processed_files fresh_session = []"
  by (simp_all add: nested_upload_def upload_with_def fresh_session_def lower_def lower_char_def
      splitext_def rfind_def path_join_def startswith_def endswith_def py_def)

lemma analyze_nested:
  "analyze_image nested_env (upload_with n ''ok'') (py ''key'') 5 =
     (Some (JDict [(py ''caption'', JStr (py ''tee shot''))]), [Generate])"
  by (simp add: analyze_image_def encode_image_def nested_env_def echo_env_def env_with_def
      upload_with_def analyze_loop.simps attempt_def sanitize_ok parse_ok_def Let_def)

lemma open_wb_nested: "length p \<le> 255 \<Longrightarrow> open_wb nested_env p"
  using length_basename [of p] by (simp add: nested_env_def echo_env_def env_with_def)

lemma write_try_nested:
  "write_try nested_env (upload_with ''a.jpg'' ''ok'') (py ''/tmp/t/tagged_images/a.jpg'')
       (JDict [(py ''caption'', JStr (py ''tee shot''))])
     = Some (Iptc_jpeg (py ''ok'') [(py ''caption/abstract'', IText (py ''tee shot''))])"
  "write_try nested_env (upload_with ''tagged_images/a.jpg'' ''ok'')
       (py ''/tmp/t/tagged_images/tagged_images/a.jpg'')
       (JDict [(py ''caption'', JStr (py ''tee shot''))])
     = None"
  by (simp_all add: write_try_def upload_with_def ext_examples nested_examples(3) jpeg_branch_def
      nested_env_def echo_env_def env_with_def jpeg_fields_def set_text_def set_keywords_def
      py_get_def dict_get_def recode_def)

lemma nested_batch:
  "process_tagging nested_env [upload_with ''a.jpg'' ''ok'', nested_upload] (py ''key'') fresh_session =
     Returned (fresh_session\<lparr>fs := (fs fresh_session)
         (py ''/tmp/t/tagged_images/a.jpg'' \<mapsto>
            Iptc_jpeg (py ''ok'') [(py ''caption/abstract'', IText (py ''tee shot''))],
          py ''/tmp/t/a.jpg'' := None,
          py ''/tmp/t/tagged_images/a.jpg'' := None),
       processed_files := [py ''/tmp/t/tagged_images/a.jpg'']\<rparr>)"
  by (simp add: process_tagging_def Let_def write_image_metadata_def with_scratch_eq
      nested_upload_def path_examples nested_examples(4,5,6) analyze_nested write_try_nested
      open_wb_nested)

text \<open>
  C9. A path in the list of processed files should name a file that exists until the
  outputs are cleared. The scratch copy of an upload is written at the upload's name
  under the session directory and removed when the function ends, whatever file was
  there. Here two files are tagged in a fresh session: \<open>a.jpg\<close>, and a file whose name
  \<open>tagged_images/a.jpg\<close> holds a path separator. The scratch copy of the second is the
  output of the first, and its own output cannot be saved. The batch returns, the list it
  stores holds the output path of the first file, and no file is left on disk: the
  stored path names nothing. The run of \<open>main\<close> that tagged the files ends in the
  download section, which opens the missing file, and so does every later run, before it
  reaches the button that clears the outputs: the session stays as it is.
\<close>

theorem stored_path_removed_with_scratch_copy:
  "name nested_upload = py ''tagged_images/a.jpg''
   \<and> path_join (temp_dir fresh_session) (name nested_upload) = py ''/tmp/t/tagged_images/a.jpg''
   \<and> path_join (path_join (temp_dir fresh_session) (py ''tagged_images''))
        (name (upload_with ''a.jpg'' ''ok'')) = py ''/tmp/t/tagged_images/a.jpg''
   \<and> outputs_exist fresh_session
   \<and> process_tagging nested_env [upload_with ''a.jpg'' ''ok'', nested_upload] (py ''key'') fresh_session =
        Returned \<lparr>temp_dir = py ''/tmp/t'',
          processed_files = [py ''/tmp/t/tagged_images/a.jpg''], fs = Map.empty\<rparr>
   \<and> \<not> outputs_exist \<lparr>temp_dir = py ''/tmp/t'',
          processed_files = [py ''/tmp/t/tagged_images/a.jpg''], fs = Map.empty\<rparr>
   \<and> main nested_env (Analyze_Images [upload_with ''a.jpg'' ''ok'', nested_upload] (py ''key''))
        fresh_session =
      \<lparr>temp_dir = py ''/tmp/t'',
        processed_files = [py ''/tmp/t/tagged_images/a.jpg''], fs = Map.empty\<rparr>
   \<and> tab1 nested_env No_click \<lparr>temp_dir = py ''/tmp/t'',
          processed_files = [py ''/tmp/t/tagged_images/a.jpg''], fs = Map.empty\<rparr> =
      (False, \<lparr>temp_dir = py ''/tmp/t'',
          processed_files = [py ''/tmp/t/tagged_images/a.jpg''], fs = Map.empty\<rparr>)
   \<and> runs nested_env
        [Analyze_Images [upload_with ''a.jpg'' ''ok'', nested_upload] (py ''key''), No_click, No_click]
        fresh_session =
      \<lparr>temp_dir = py ''/tmp/t'',
        processed_files = [py ''/tmp/t/tagged_images/a.jpg''], fs = Map.empty\<rparr>"
proof -
  have st: "fresh_session\<lparr>fs := (fs fresh_session)
         (py ''/tmp/t/tagged_images/a.jpg'' \<mapsto>
            Iptc_jpeg (py ''ok'') [(py ''caption/abstract'', IText (py ''tee shot''))],
          py ''/tmp/t/a.jpg'' := None,
          py ''/tmp/t/tagged_images/a.jpg'' := None),
       processed_files := [py ''/tmp/t/tagged_images/a.jpg'']\<rparr> =
     \<lparr>temp_dir = py ''/tmp/t'',
       processed_files = [py ''/tmp/t/tagged_images/a.jpg''], fs = Map.empty\<rparr>"
    by (simp add: fresh_session_def fun_eq_iff)
  have batch: "process_tagging nested_env [upload_with ''a.jpg'' ''ok'', nested_upload] (py ''key'')
        fresh_session =
      Returned \<lparr>temp_dir = py ''/tmp/t'',
        processed_files = [py ''/tmp/t/tagged_images/a.jpg''], fs = Map.empty\<rparr>"
    by (simp only: nested_batch st)
  show ?thesis
    by (simp add: batch nested_examples path_examples outputs_exist_def main_def tab1_def
        download_section_def)
qed

end
